theory Spec2Isabelle
  imports Complex_Main "HOL-Library.Log_Nat"
begin

section \<open>Data model\<close>

text \<open>
  The forecasting core of \<^verbatim>\<open>app.py\<close>. A pandas timestamp is a count of nanoseconds, so
  \<^verbatim>\<open>pd.Timedelta(days=1)\<close> is the constant \<open>one_day\<close>. A row of the price frame has a
  \<^verbatim>\<open>Date\<close> and a \<^verbatim>\<open>Close\<close>; a missing close (NaN, what \<^verbatim>\<open>dropna\<close> removes) is
  \<open>None\<close>. Prices are real numbers: the arithmetic of float64 is taken exactly, and every
  cast to float32 that the source writes is the rounding \<open>float32\<close>. The horizon \<^verbatim>\<open>days\<close>
  and the \<^verbatim>\<open>window\<close> are natural numbers (the endpoint validates them with \<^verbatim>\<open>ge=1\<close> and
  \<^verbatim>\<open>ge=5\<close>).
\<close>

type_synonym timestamp = int

definition one_day :: timestamp where
  "one_day = 86400000000000"

record bar =
  Date :: timestamp
  Close :: "real option"

type_synonym dataframe = "bar list"

text \<open>The frame \<^verbatim>\<open>pd.DataFrame({"Date": future_dates, "Forecast": values})\<close>, row by row.\<close>

type_synonym forecast = "(timestamp \<times> real) list"

text \<open>
  Python exceptions as values, by class and message (\<^verbatim>\<open>str(exc)\<close>). \<open>ExternalError\<close> is an
  exception raised inside TensorFlow, joblib or the file system, whose message is opaque.
\<close>

datatype error =
    ValueError string
  | TypeError string
  | FileNotFoundError string
  | IndexError string
  | AttributeError string
  | ExternalError string

fun str_of_error :: "error \<Rightarrow> string" where
  "str_of_error (ValueError m) = m"
| "str_of_error (TypeError m) = m"
| "str_of_error (FileNotFoundError m) = m"
| "str_of_error (IndexError m) = m"
| "str_of_error (AttributeError m) = m"
| "str_of_error (ExternalError m) = m"

text \<open>The errors of the specification's taxonomy, as the source raises them.\<close>

definition EmptySeriesError :: error where
  "EmptySeriesError = ValueError ''No data available for forecasting''"

definition InsufficientDataError :: error where
  "InsufficientDataError =
     ValueError ''Not enough data points to train an LSTM model for the requested window size.''"

definition InsufficientDataError_inference :: error where
  "InsufficientDataError_inference =
     ValueError ''Not enough data points for the selected LSTM window size.''"

definition NoTrainingSequencesError :: error where
  "NoTrainingSequencesError = ValueError ''Unable to create training sequences for LSTM model.''"

text \<open>Errors of the libraries on inputs the source hands them.\<close>

definition polyfit_empty_error :: error where
  "polyfit_empty_error = TypeError ''expected non-empty vector for x''"

definition no_samples_error :: error where
  "no_samples_error = ValueError ''Found array with 0 sample(s) while a minimum of 1 is required.''"

definition reshape_error :: error where
  "reshape_error = ValueError ''cannot reshape array''"

definition iloc_error :: error where
  "iloc_error = IndexError ''single positional indexer is out-of-bounds''"

definition serialize_none_error :: error where
  "serialize_none_error = AttributeError ''NoneType object has no attribute iterrows''"

section \<open>Single precision\<close>

text \<open>
  \<^verbatim>\<open>np.float32\<close>: rounding to the nearest number with a significand of 24 bits, ties to the
  even significand. \<open>rne\<close> rounds to the nearest integer, ties to even; \<open>exponent a\<close> is the
  integer \<open>e\<close> with \<open>2\<^sup>e \<le> a < 2\<^sup>e\<^sup>+\<^sup>1\<close> for a positive \<open>a\<close>, found from the bit length of
  \<open>\<lfloor>a\<rfloor>\<close> or of \<open>\<lceil>1/a\<rceil> - 1\<close>; \<open>pow2 e\<close> is \<open>2\<^sup>e\<close>. The exponent range is not modelled: no
  overflow, no subnormal numbers.
\<close>

definition rne :: "real \<Rightarrow> int" where
  "rne y =
     (let f = \<lfloor>y\<rfloor>; r = y - of_int f
      in if r < 1 / 2 then f else if 1 / 2 < r then f + 1 else if even f then f else f + 1)"

definition pow2 :: "int \<Rightarrow> real" where
  "pow2 e = (if 0 \<le> e then 2 ^ nat e else 1 / 2 ^ nat (- e))"

definition exponent :: "real \<Rightarrow> int" where
  "exponent a =
     (if 1 \<le> a then int (floorlog 2 (nat \<lfloor>a\<rfloor>)) - 1
      else - int (floorlog 2 (nat (\<lceil>1 / a\<rceil> - 1))))"

definition float32 :: "real \<Rightarrow> real" where
  "float32 x =
     (if x = 0 then 0
      else
        let q = pow2 (exponent \<bar>x\<bar> - 23)
        in sgn x * (of_int (rne (\<bar>x\<bar> / q)) * q))"

section \<open>Frames and dates\<close>

text \<open>\<^verbatim>\<open>data.dropna(subset=["Close"])\<close>: the rows with a close, in order.\<close>

definition dropna_close :: "dataframe \<Rightarrow> (timestamp \<times> real) list" where
  "dropna_close data =
     List.map_filter (\<lambda>r. case Close r of None \<Rightarrow> None | Some c \<Rightarrow> Some (Date r, c)) data"

text \<open>\<^verbatim>\<open>pd.date_range(start, periods=days, freq="D")\<close>.\<close>

definition date_range :: "timestamp \<Rightarrow> nat \<Rightarrow> timestamp list" where
  "date_range start periods = map (\<lambda>k. start + int k * one_day) [0..<periods]"

section \<open>Linear trend forecaster\<close>

text \<open>
  \<^verbatim>\<open>np.polyfit(np.arange(n), ys, 1)\<close> in exact arithmetic: the least-squares line through
  the points \<open>(0, y\<^sub>0), \<dots>, (n - 1, y\<^sub>n\<^sub>-\<^sub>1)\<close>. numpy raises a TypeError on an empty vector.
\<close>

definition polyfit1 :: "real list \<Rightarrow> error + (real \<times> real)" where
  "polyfit1 ys =
     (if ys = [] then Inl polyfit_empty_error
      else
        let n = real (length ys);
            xs = map real [0..<length ys];
            sx = sum_list xs;
            sy = sum_list ys;
            sxx = sum_list (map (\<lambda>x. x * x) xs);
            sxy = sum_list (map (\<lambda>(x, y). x * y) (zip xs ys));
            slope = (n * sxy - sx * sy) / (n * sxx - sx * sx);
            intercept = (sy - slope * sx) / n
        in Inr (slope, intercept))"

definition forecast_linear :: "dataframe \<Rightarrow> nat \<Rightarrow> error + forecast" where
  "forecast_linear data days =
     (if data = [] then Inl EmptySeriesError
      else
        let closes = dropna_close data;
            closes_values = map snd closes
        in case (if length closes_values = 1 then Inr (0, closes_values ! 0)
                 else polyfit1 closes_values) of
             Inl e \<Rightarrow> Inl e
           | Inr (slope, intercept) \<Rightarrow>
               (let future_index = map real [length closes_values..<length closes_values + days];
                    forecast_values = map (\<lambda>x. slope * x + intercept) future_index
                in case closes of
                     [] \<Rightarrow> Inl iloc_error
                   | _ # _ \<Rightarrow>
                       (let last_date = fst (last closes);
                            future_dates = date_range (last_date + one_day) days
                        in Inr (zip future_dates forecast_values))))"

section \<open>Min-max scaling\<close>

text \<open>
  \<^verbatim>\<open>sklearn.preprocessing.MinMaxScaler(feature_range=(0.0, 1.0))\<close> on one column. Fitting
  keeps the observed minimum and maximum; a zero range is replaced by 1 before the
  division (sklearn's \<^verbatim>\<open>_handle_zeros_in_scale\<close>), so a constant column has scale 1. Every
  entry point checks that the array has at least one sample.
\<close>

record minmax_scaler =
  data_min :: real
  data_max :: real
  scale :: real
  min_offset :: real

fun list_min :: "real list \<Rightarrow> real" where
  "list_min [] = 0"
| "list_min [x] = x"
| "list_min (x # y # ys) = min x (list_min (y # ys))"

fun list_max :: "real list \<Rightarrow> real" where
  "list_max [] = 0"
| "list_max [x] = x"
| "list_max (x # y # ys) = max x (list_max (y # ys))"

definition fit :: "real list \<Rightarrow> error + minmax_scaler" where
  "fit xs =
     (if xs = [] then Inl no_samples_error
      else
        let lo = list_min xs;
            hi = list_max xs;
            data_range = hi - lo;
            sc = (1 - 0) / (if data_range = 0 then 1 else data_range)
        in Inr \<lparr>data_min = lo, data_max = hi, scale = sc, min_offset = 0 - lo * sc\<rparr>)"

definition transform1 :: "minmax_scaler \<Rightarrow> real \<Rightarrow> real" where
  "transform1 s x = x * scale s + min_offset s"

definition inverse_transform1 :: "minmax_scaler \<Rightarrow> real \<Rightarrow> real" where
  "inverse_transform1 s y = (y - min_offset s) / scale s"

definition transform :: "minmax_scaler \<Rightarrow> real list \<Rightarrow> error + real list" where
  "transform s xs = (if xs = [] then Inl no_samples_error else Inr (map (transform1 s) xs))"

definition inverse_transform :: "minmax_scaler \<Rightarrow> real list \<Rightarrow> error + real list" where
  "inverse_transform s ys =
     (if ys = [] then Inl no_samples_error else Inr (map (inverse_transform1 s) ys))"

text \<open>
  \<^verbatim>\<open>inverse_transform\<close> on a float32 array: sklearn keeps the dtype and works in place, so
  the results of \<^verbatim>\<open>X -= self.min_\<close> and of \<^verbatim>\<open>X /= self.scale_\<close> are each stored as float32.
\<close>

definition inverse_transform1_float32 :: "minmax_scaler \<Rightarrow> real \<Rightarrow> real" where
  "inverse_transform1_float32 s y = float32 (float32 (y - min_offset s) / scale s)"

definition inverse_transform_float32 :: "minmax_scaler \<Rightarrow> real list \<Rightarrow> error + real list" where
  "inverse_transform_float32 s ys =
     (if ys = [] then Inl no_samples_error
      else Inr (map (inverse_transform1_float32 s) (map float32 ys)))"

definition fit_transform :: "real list \<Rightarrow> error + (minmax_scaler \<times> real list)" where
  "fit_transform xs =
     (case fit xs of
        Inl e \<Rightarrow> Inl e
      | Inr s \<Rightarrow> (case transform s xs of Inl e \<Rightarrow> Inl e | Inr ys \<Rightarrow> Inr (s, ys)))"

section \<open>Series preprocessor\<close>

text \<open>
  The loop \<^verbatim>\<open>for idx in range(window, len(closes_scaled))\<close> of the trainer: one pair of the
  slice \<^verbatim>\<open>closes_scaled[idx - window : idx]\<close> and the target \<^verbatim>\<open>closes_scaled[idx]\<close> per
  index.
\<close>

definition make_sequences :: "nat \<Rightarrow> real list \<Rightarrow> (real list \<times> real) list" where
  "make_sequences window closes_scaled =
     map (\<lambda>idx. (take window (drop (idx - window) closes_scaled), closes_scaled ! idx))
       [window..<length closes_scaled]"

text \<open>
  \<^verbatim>\<open>history_scaled[-window:]\<close>: the last \<open>window\<close> elements, or all of them when there are
  fewer; \<^verbatim>\<open>xs[-0:]\<close> is the whole list.
\<close>

definition last_window :: "nat \<Rightarrow> 'a list \<Rightarrow> 'a list" where
  "last_window window xs = (if window = 0 then xs else drop (length xs - window) xs)"

text \<open>\<^verbatim>\<open>np.clip(x, 0.0, 1.0)\<close>.\<close>

definition clip01 :: "real \<Rightarrow> real" where
  "clip01 x = min (max x 0) 1"

section \<open>Autoregressive prediction loops\<close>

text \<open>
  Both loops run \<^verbatim>\<open>days\<close> times over the state \<^verbatim>\<open>(history_scaled, preds_scaled)\<close>. The
  model's \<^verbatim>\<open>predict\<close> is a function of the window slice and returns the float32 the
  network puts out; \<^verbatim>\<open>reshape(1, window, 1)\<close> raises when the slice does not hold exactly
  \<open>window\<close> values.
\<close>

text \<open>The loop of \<^verbatim>\<open>forecast_lstm_inference\<close>: the prediction is appended as it is.\<close>

fun inference_loop ::
  "(real list \<Rightarrow> real) \<Rightarrow> nat \<Rightarrow> nat \<Rightarrow> real list \<Rightarrow> real list \<Rightarrow> error + real list" where
  "inference_loop predict window 0 history_scaled preds_scaled = Inr preds_scaled"
| "inference_loop predict window (Suc days) history_scaled preds_scaled =
     (let window_slice = last_window window history_scaled
      in if length window_slice \<noteq> window then Inl reshape_error
         else
           let next_scaled = predict window_slice
           in inference_loop predict window days
                (history_scaled @ [next_scaled]) (preds_scaled @ [next_scaled]))"

text \<open>
  The loop of \<^verbatim>\<open>forecast_lstm_autotrain\<close>: the window slice is cast to float32, and the
  prediction is clipped to \<open>[0, 1]\<close> before it is appended.
\<close>

fun autotrain_loop ::
  "(real list \<Rightarrow> real) \<Rightarrow> nat \<Rightarrow> nat \<Rightarrow> real list \<Rightarrow> real list \<Rightarrow> error + real list" where
  "autotrain_loop predict window 0 history_scaled preds_scaled = Inr preds_scaled"
| "autotrain_loop predict window (Suc days) history_scaled preds_scaled =
     (let window_slice = last_window window history_scaled
      in if length window_slice \<noteq> window then Inl reshape_error
         else
           let next_scaled = clip01 (predict (map float32 window_slice))
           in autotrain_loop predict window days
                (history_scaled @ [next_scaled]) (preds_scaled @ [next_scaled]))"


section \<open>External collaborators\<close>

text \<open>
  TensorFlow, joblib and the file system are taken as parameters. \<open>'m\<close> is a trained model
  and \<open>'w\<close> the state of the storage root. A call that raises returns its message; a
  writing call returns the storage state it leaves behind either way, since a write can
  fail half done.
  \<^item> \<open>train_model window learning_rate epochs batch_size X y\<close> builds, compiles and fits the
    network (\<^verbatim>\<open>Sequential\<close>, \<^verbatim>\<open>compile\<close>, \<^verbatim>\<open>fit\<close>);
  \<^item> \<open>predict m window_slice\<close> is \<^verbatim>\<open>model.predict(window_slice)[0][0]\<close>;
  \<^item> \<open>mkdir\<close>, \<open>save_model\<close> and \<open>dump_scaler\<close> are \<^verbatim>\<open>model_dir.mkdir\<close>, \<^verbatim>\<open>model.save\<close> and
    \<^verbatim>\<open>joblib.dump\<close>;
  \<^item> \<open>path_exists\<close> is \<^verbatim>\<open>os.path.exists\<close> and \<^verbatim>\<open>Path.exists\<close>; \<open>listdir\<close> gives the names in
    the storage root in the order \<^verbatim>\<open>glob\<close> yields them, \<open>None\<close> when it is not a
    directory;
  \<^item> \<open>load_scaler\<close> and \<open>load_model\<close> are \<^verbatim>\<open>joblib.load\<close> and \<^verbatim>\<open>load_model\<close>.
  A path inside the storage root is written as the file's name.
\<close>

record ('w, 'm) backend =
  train_model :: "nat \<Rightarrow> real \<Rightarrow> nat \<Rightarrow> nat \<Rightarrow> real list list \<Rightarrow> real list \<Rightarrow> string + 'm"
  predict :: "'m \<Rightarrow> real list \<Rightarrow> real"
  mkdir :: "'w \<Rightarrow> string option \<times> 'w"
  save_model :: "string \<Rightarrow> 'm \<Rightarrow> 'w \<Rightarrow> string option \<times> 'w"
  dump_scaler :: "string \<Rightarrow> minmax_scaler \<Rightarrow> 'w \<Rightarrow> string option \<times> 'w"
  path_exists :: "'w \<Rightarrow> string \<Rightarrow> bool"
  listdir :: "'w \<Rightarrow> string list option"
  load_scaler :: "'w \<Rightarrow> string \<Rightarrow> string + minmax_scaler"
  load_model :: "'w \<Rightarrow> string \<Rightarrow> string + 'm"

section \<open>Strings\<close>

text \<open>
  \<^verbatim>\<open>str.upper\<close>, \<^verbatim>\<open>str.lower\<close> and \<^verbatim>\<open>str.strip\<close> on ASCII text: ticker symbols and file names
  are taken to be ASCII.
\<close>

definition upper_char :: "char \<Rightarrow> char" where
  "upper_char c =
     (case map_of (zip ''abcdefghijklmnopqrstuvwxyz'' ''ABCDEFGHIJKLMNOPQRSTUVWXYZ'') c of
        None \<Rightarrow> c | Some u \<Rightarrow> u)"

definition lower_char :: "char \<Rightarrow> char" where
  "lower_char c =
     (case map_of (zip ''ABCDEFGHIJKLMNOPQRSTUVWXYZ'' ''abcdefghijklmnopqrstuvwxyz'') c of
        None \<Rightarrow> c | Some l \<Rightarrow> l)"

definition py_upper :: "string \<Rightarrow> string" where
  "py_upper s = map upper_char s"

definition py_lower :: "string \<Rightarrow> string" where
  "py_lower s = map lower_char s"

definition whitespace :: "char list" where
  "whitespace =
     [CHR 0x09, CHR 0x0A, CHR 0x0B, CHR 0x0C, CHR 0x0D, CHR 0x1C, CHR 0x1D, CHR 0x1E, CHR 0x1F,
      CHR 0x20]"

text \<open>\<^verbatim>\<open>s.strip(chars)\<close>: the characters of \<open>chars\<close> are removed from both ends.\<close>

definition strip_chars :: "char list \<Rightarrow> string \<Rightarrow> string" where
  "strip_chars chars s =
     rev (dropWhile (\<lambda>c. c \<in> set chars) (rev (dropWhile (\<lambda>c. c \<in> set chars) s)))"

definition py_strip :: "string \<Rightarrow> string" where
  "py_strip s = strip_chars whitespace s"

text \<open>The truth value of an \<^verbatim>\<open>Optional[str]\<close>: neither \<^verbatim>\<open>None\<close> nor empty.\<close>

fun truthy :: "string option \<Rightarrow> bool" where
  "truthy None = False"
| "truthy (Some s) = (s \<noteq> [])"

definition startswith :: "string \<Rightarrow> string \<Rightarrow> bool" where
  "startswith s prefix = (take (length prefix) s = prefix)"

definition endswith :: "string \<Rightarrow> string \<Rightarrow> bool" where
  "endswith s suffix =
     (length suffix \<le> length s \<and> drop (length s - length suffix) s = suffix)"

section \<open>Sequence model trainer\<close>

text \<open>
  The part of \<^verbatim>\<open>forecast_lstm_autotrain\<close> before the persistence block: preprocessing,
  training and the prediction loop, up to \<^verbatim>\<open>preds\<close> and the fitted scaler and model. The
  arrays \<^verbatim>\<open>X\<close> and \<^verbatim>\<open>y\<close> are float32; \<^verbatim>\<open>reshape(-1, window, 1)\<close> raises for a window of 0;
  the predictions are decoded as a float32 array.
\<close>

definition autotrain_compute ::
  "('w, 'm) backend \<Rightarrow> dataframe \<Rightarrow> nat \<Rightarrow> nat \<Rightarrow> nat \<Rightarrow> real \<Rightarrow>
     error + (real list \<times> minmax_scaler \<times> 'm)" where
  "autotrain_compute env data days window epochs learning_rate =
     (let closes = map snd (dropna_close data) in
      if length closes \<le> window then Inl InsufficientDataError
      else
        case fit_transform closes of
          Inl e \<Rightarrow> Inl e
        | Inr (sc, closes_scaled) \<Rightarrow>
            (let pairs = make_sequences window closes_scaled;
                 sequences = map fst pairs;
                 targets = map snd pairs
             in if sequences = [] then Inl NoTrainingSequencesError
                else if window = 0 then Inl reshape_error
                else
                  let X = map (map float32) sequences;
                      y = map float32 targets;
                      batch_size = (let b = min 32 (length X) in if b = 0 then 1 else b)
                  in case train_model env window learning_rate epochs batch_size X y of
                       Inl msg \<Rightarrow> Inl (ExternalError msg)
                     | Inr m \<Rightarrow>
                         (case autotrain_loop (predict env m) window days closes_scaled [] of
                            Inl e \<Rightarrow> Inl e
                          | Inr preds_scaled \<Rightarrow>
                              (case inverse_transform_float32 sc preds_scaled of
                                 Inl e \<Rightarrow> Inl e
                               | Inr preds \<Rightarrow> Inr (preds, sc, m)))))"

text \<open>
  The block \<^verbatim>\<open>if persist and ticker:\<close> of the trainer: the directory, the model file and the
  scaler file, in this order; the first call that raises ends the block.
\<close>

definition persist_artifacts ::
  "('w, 'm) backend \<Rightarrow> string \<Rightarrow> 'm \<Rightarrow> minmax_scaler \<Rightarrow> 'w \<Rightarrow> string option \<times> 'w" where
  "persist_artifacts env ticker m sc w =
     (let ticker_clean = py_upper (py_strip ticker);
          model_path = ''lstm_'' @ ticker_clean @ ''.keras'';
          scaler_path = ''scaler_'' @ ticker_clean @ ''.save''
      in case mkdir env w of
           (Some msg, w1) \<Rightarrow> (Some msg, w1)
         | (None, w1) \<Rightarrow>
             (case save_model env model_path m w1 of
                (Some msg, w2) \<Rightarrow> (Some msg, w2)
              | (None, w2) \<Rightarrow> dump_scaler env scaler_path sc w2))"

definition forecast_lstm_autotrain ::
  "('w, 'm) backend \<Rightarrow> dataframe \<Rightarrow> nat \<Rightarrow> nat \<Rightarrow> nat \<Rightarrow> real \<Rightarrow> string option \<Rightarrow> bool \<Rightarrow> 'w \<Rightarrow>
     (error + forecast) \<times> 'w" where
  "forecast_lstm_autotrain env data days window epochs learning_rate ticker persist w =
     (case autotrain_compute env data days window epochs learning_rate of
        Inl e \<Rightarrow> (Inl e, w)
      | Inr (preds, sc, m) \<Rightarrow>
          (case (case ticker of
                   None \<Rightarrow> (None, w)
                 | Some t \<Rightarrow> if persist \<and> t \<noteq> [] then persist_artifacts env t m sc w else (None, w)) of
             (Some msg, w') \<Rightarrow> (Inl (ExternalError msg), w')
           | (None, w') \<Rightarrow>
               (case data of
                  [] \<Rightarrow> (Inl iloc_error, w')
                | _ # _ \<Rightarrow>
                    (let last_date = Date (last data);
                         future_dates = date_range (last_date + one_day) days
                     in (Inr (zip future_dates preds), w')))))"

section \<open>Sequence model inference runner\<close>

definition forecast_lstm_inference ::
  "('w, 'm) backend \<Rightarrow> dataframe \<Rightarrow> string \<Rightarrow> string \<Rightarrow> nat \<Rightarrow> nat \<Rightarrow> 'w \<Rightarrow> error + forecast" where
  "forecast_lstm_inference env data model_path scaler_path days window w =
     (if \<not> path_exists env w model_path
        then Inl (FileNotFoundError (''Model file not found: '' @ model_path))
      else if \<not> path_exists env w scaler_path
        then Inl (FileNotFoundError (''Scaler file not found: '' @ scaler_path))
      else
        let closes = map snd (dropna_close data) in
        if length closes < window then Inl InsufficientDataError_inference
        else
          case load_scaler env w scaler_path of
            Inl msg \<Rightarrow> Inl (ExternalError msg)
          | Inr sc \<Rightarrow>
              (case transform sc closes of
                 Inl e \<Rightarrow> Inl e
               | Inr closes_scaled \<Rightarrow>
                   (case load_model env w model_path of
                      Inl msg \<Rightarrow> Inl (ExternalError msg)
                    | Inr m \<Rightarrow>
                        (case inference_loop (predict env m) window days closes_scaled [] of
                           Inl e \<Rightarrow> Inl e
                         | Inr preds_scaled \<Rightarrow>
                             (case inverse_transform sc preds_scaled of
                                Inl e \<Rightarrow> Inl e
                              | Inr preds \<Rightarrow>
                                  (case data of
                                     [] \<Rightarrow> Inl iloc_error
                                   | _ # _ \<Rightarrow>
                                       (let last_date = Date (last data);
                                            future_dates = date_range (last_date + one_day) days
                                        in Inr (zip future_dates preds))))))))"


section \<open>Model artifact catalog\<close>

text \<open>
  \<^verbatim>\<open>Path.stem\<close>: the name without its last suffix; a name has a suffix when its last dot is
  neither its first nor its last character.
\<close>

definition path_stem :: "string \<Rightarrow> string" where
  "path_stem name =
     (if CHR ''.'' \<notin> set name then name
      else
        let i = length name - length (takeWhile (\<lambda>c. c \<noteq> CHR ''.'') (rev name)) - 1
        in if 0 < i \<and> i < length name - 1 then take i name else name)"

definition strip_prefix :: "string \<Rightarrow> string \<Rightarrow> string" where
  "strip_prefix cleaned prefix =
     (if startswith cleaned prefix then drop (length prefix) cleaned else cleaned)"

definition normalise_ticker_from_stem :: "string \<Rightarrow> string option" where
  "normalise_ticker_from_stem stem =
     (let cleaned = py_upper stem;
          cleaned = foldl strip_prefix cleaned [''LSTM_'', ''MODEL_'', ''STOCK_''];
          cleaned = filter (\<lambda>c. c \<in> set ''ABCDEFGHIJKLMNOPQRSTUVWXYZ0123456789'') cleaned
      in if cleaned = [] then None else Some cleaned)"

definition candidates :: "string \<Rightarrow> string list" where
  "candidates ticker =
     [ticker @ ''_SCALER.pkl'',
      ticker @ ''_SCALER.save'',
      ticker @ ''_scaler.pkl'',
      ticker @ ''_scaler.save'',
      ''SCALER_'' @ ticker @ ''.pkl'',
      ''SCALER_'' @ ticker @ ''.save'',
      ''scaler_'' @ ticker @ ''.pkl'',
      ''scaler_'' @ ticker @ ''.save'',
      ''lstm_'' @ ticker @ ''_scaler.pkl'',
      ''lstm_'' @ ticker @ ''_scaler.save'',
      ''LSTM_'' @ ticker @ ''_SCALER.pkl'',
      ''LSTM_'' @ ticker @ ''_SCALER.save'']"

definition more_candidates :: "string \<Rightarrow> string list" where
  "more_candidates ticker_lower =
     [ticker_lower @ ''_scaler.pkl'',
      ticker_lower @ ''_scaler.save'',
      ''scaler_'' @ ticker_lower @ ''.pkl'',
      ''scaler_'' @ ticker_lower @ ''.save'',
      ''lstm_'' @ ticker_lower @ ''_scaler.pkl'',
      ''lstm_'' @ ticker_lower @ ''_scaler.save'']"

definition find_scaler_path :: "(string \<Rightarrow> bool) \<Rightarrow> string \<Rightarrow> string option" where
  "find_scaler_path exists ticker =
     (case List.find exists (candidates ticker) of
        Some candidate \<Rightarrow> Some candidate
      | None \<Rightarrow> List.find exists (more_candidates (py_lower ticker)))"

record catalog_entry =
  entry_model :: string
  entry_scaler :: string

type_synonym catalog = "string \<rightharpoonup> catalog_entry"

text \<open>\<^verbatim>\<open>model_root.glob("*" + ext)\<close>: the names that end with the extension.\<close>

definition glob_ext :: "string \<Rightarrow> string list \<Rightarrow> string list" where
  "glob_ext ext names = filter (\<lambda>name. endswith name ext) names"

text \<open>One turn of the loop over the model files.\<close>

definition scan_step :: "(string \<Rightarrow> bool) \<Rightarrow> catalog \<Rightarrow> string \<Rightarrow> catalog" where
  "scan_step exists models model_path =
     (case normalise_ticker_from_stem (path_stem model_path) of
        None \<Rightarrow> models
      | Some ticker \<Rightarrow>
          (case find_scaler_path exists ticker of
             None \<Rightarrow> models
           | Some scaler_path \<Rightarrow>
               models(ticker \<mapsto> \<lparr>entry_model = model_path, entry_scaler = scaler_path\<rparr>)))"

definition list_available_models :: "string list option \<Rightarrow> (string \<Rightarrow> bool) \<Rightarrow> catalog" where
  "list_available_models listing exists =
     (case listing of
        None \<Rightarrow> Map.empty
      | Some names \<Rightarrow>
          (let model_files = glob_ext ''.keras'' names @ glob_ext ''.h5'' names
           in foldl (scan_step exists) Map.empty model_files))"

definition load_lstm_artifacts :: "string \<Rightarrow> catalog \<Rightarrow> error + (string \<times> string)" where
  "load_lstm_artifacts ticker cat =
     (let ticker_clean = py_upper (py_strip ticker)
      in case cat ticker_clean of
           None \<Rightarrow> Inl (FileNotFoundError (''No saved LSTM model for '' @ ticker_clean))
         | Some entry \<Rightarrow> Inr (entry_model entry, entry_scaler entry))"

section \<open>Forecast orchestrator\<close>

text \<open>
  The body of \<^verbatim>\<open>get_forecast\<close> from \<^verbatim>\<open>ticker_clean = ticker.strip().upper()\<close> on, once the
  dates are parsed and the price frame is loaded. Its local variables are the fields of
  \<open>orch\<close> (\<open>note_str\<close> is the variable \<^verbatim>\<open>note\<close>); \<open>attempts\<close> is a log the model adds: each
  call of a forecaster appends its tier.
\<close>

datatype tier = ATTEMPT_TRAIN | ATTEMPT_CACHED | FALLBACK_LINEAR

record 'w orch =
  forecast_df :: "forecast option"
  source :: string
  note_str :: "string option"
  train_error :: "string option"
  model_catalog :: catalog
  world :: 'w
  attempts :: "tier list"

record forecast_response =
  resp_ticker :: string
  resp_source :: string
  resp_forecast :: forecast
  resp_history :: "bar list"
  resp_note :: "string option"

text \<open>The block \<^verbatim>\<open>if use_lstm:\<close> (training, then the cached model after a failure).\<close>

definition lstm_block ::
  "('w, 'm) backend \<Rightarrow> dataframe \<Rightarrow> string \<Rightarrow> nat \<Rightarrow> nat \<Rightarrow> 'w orch \<Rightarrow> 'w orch" where
  "lstm_block env data ticker_clean days window st =
     (case forecast_lstm_autotrain env data days window 8 (5 / 10000) (Some ticker_clean) True
             (world st) of
        (Inr f, w') \<Rightarrow>
          st\<lparr>forecast_df := Some f, source := ''lstm'', world := w',
             attempts := attempts st @ [ATTEMPT_TRAIN]\<rparr>
      | (Inl train_exc, w') \<Rightarrow>
          (let err = str_of_error train_exc;
               cat = list_available_models (listdir env w') (path_exists env w');
               st1 = st\<lparr>train_error := Some err, model_catalog := cat, world := w',
                        attempts := attempts st @ [ATTEMPT_TRAIN]\<rparr>
           in if cat ticker_clean \<noteq> None then
                (case load_lstm_artifacts ticker_clean cat of
                   Inl exc \<Rightarrow>
                     st1\<lparr>train_error :=
                            Some (err @ ''; cached model failed: '' @ str_of_error exc)\<rparr>
                 | Inr (model_path, scaler_path) \<Rightarrow>
                     (case forecast_lstm_inference env data model_path scaler_path days window w' of
                        Inl exc \<Rightarrow>
                          st1\<lparr>train_error :=
                                 Some (err @ ''; cached model failed: '' @ str_of_error exc),
                              attempts := attempts st1 @ [ATTEMPT_CACHED]\<rparr>
                      | Inr f \<Rightarrow>
                          st1\<lparr>forecast_df := Some f, source := ''lstm'',
                              note_str := Some (''Used cached LSTM due to training fallback: '' @ err),
                              attempts := attempts st1 @ [ATTEMPT_CACHED]\<rparr>))
              else st1\<lparr>note_str := Some (''LSTM training unavailable: '' @ err)\<rparr>))"

text \<open>
  The inner \<^verbatim>\<open>if use_lstm and ticker_clean in model_catalog:\<close> of the block
  \<^verbatim>\<open>if forecast_df is None:\<close>.
\<close>

definition cached_block ::
  "('w, 'm) backend \<Rightarrow> dataframe \<Rightarrow> string \<Rightarrow> nat \<Rightarrow> nat \<Rightarrow> 'w orch \<Rightarrow> 'w orch" where
  "cached_block env data ticker_clean days window st =
     (let failed = (\<lambda>exc.
            strip_chars ''; ''
              ((case train_error st of None \<Rightarrow> [] | Some e \<Rightarrow> e)
                 @ ''; cached model failed: '' @ str_of_error exc))
      in case load_lstm_artifacts ticker_clean (model_catalog st) of
           Inl exc \<Rightarrow> st\<lparr>train_error := Some (failed exc)\<rparr>
         | Inr (model_path, scaler_path) \<Rightarrow>
             (case forecast_lstm_inference env data model_path scaler_path days window (world st) of
                Inl exc \<Rightarrow>
                  st\<lparr>train_error := Some (failed exc),
                     attempts := attempts st @ [ATTEMPT_CACHED]\<rparr>
              | Inr f \<Rightarrow>
                  st\<lparr>forecast_df := Some f, source := ''lstm'',
                     attempts := attempts st @ [ATTEMPT_CACHED]\<rparr>))"

text \<open>The block \<^verbatim>\<open>if forecast_df is None:\<close>; an exception of \<^verbatim>\<open>forecast_linear\<close> leaves it.\<close>

definition fallback_block ::
  "('w, 'm) backend \<Rightarrow> dataframe \<Rightarrow> string \<Rightarrow> nat \<Rightarrow> bool \<Rightarrow> nat \<Rightarrow> 'w orch \<Rightarrow>
     (error \<times> 'w orch) + 'w orch" where
  "fallback_block env data ticker_clean days use_lstm window st =
     (if forecast_df st = None then
        let st1 = (if use_lstm \<and> model_catalog st ticker_clean \<noteq> None
                   then cached_block env data ticker_clean days window st else st)
        in if forecast_df st1 = None then
             (case forecast_linear data days of
                Inl exc \<Rightarrow> Inl (exc, st1\<lparr>attempts := attempts st1 @ [FALLBACK_LINEAR]\<rparr>)
              | Inr f \<Rightarrow>
                  Inr (st1\<lparr>forecast_df := Some f, source := ''linear'',
                           note_str := (if truthy (train_error st1)
                                    then Some (''Fell back to linear forecast because LSTM failed: ''
                                                 @ the (train_error st1))
                                    else note_str st1),
                           attempts := attempts st1 @ [FALLBACK_LINEAR]\<rparr>))
           else Inr st1
      else Inr st)"

text \<open>\<^verbatim>\<open>data.tail(limit)\<close>.\<close>

definition tail_rows :: "nat \<Rightarrow> 'a list \<Rightarrow> 'a list" where
  "tail_rows limit rows = drop (length rows - limit) rows"

text \<open>
  The result is the response or the exception that leaves the function, with the storage
  state and the log of the tiers attempted.
\<close>

definition get_forecast ::
  "('w, 'm) backend \<Rightarrow> dataframe \<Rightarrow> string \<Rightarrow> nat \<Rightarrow> bool \<Rightarrow> nat \<Rightarrow> 'w \<Rightarrow>
     (error + forecast_response) \<times> 'w \<times> tier list" where
  "get_forecast env data ticker days use_lstm window w =
     (let ticker_clean = py_upper (py_strip ticker);
          st0 = \<lparr>forecast_df = None, source = ''linear'', note_str = None, train_error = None,
                 model_catalog = list_available_models (listdir env w) (path_exists env w),
                 world = w, attempts = []\<rparr>;
          st1 = (if use_lstm then lstm_block env data ticker_clean days window st0 else st0)
      in case fallback_block env data ticker_clean days use_lstm window st1 of
           Inl (exc, st2) \<Rightarrow> (Inl exc, world st2, attempts st2)
         | Inr st2 \<Rightarrow>
             (case forecast_df st2 of
                None \<Rightarrow> (Inl serialize_none_error, world st2, attempts st2)
              | Some f \<Rightarrow>
                  (Inr \<lparr>resp_ticker = ticker_clean, resp_source = source st2, resp_forecast = f,
                        resp_history = tail_rows (max days 120) data, resp_note = note_str st2\<rparr>,
                   world st2, attempts st2)))"

section \<open>Example environments\<close>

text \<open>
  A storage root given by the list of its names, and a backend whose network predicts one
  fixed value \<open>p\<close>. Training always succeeds; \<open>write_ok\<close> says whether \<^verbatim>\<open>model.save\<close>
  succeeds. Every scaler file holds the identity scaling of \<open>[0, 1]\<close>.
\<close>

definition example_backend :: "real \<Rightarrow> bool \<Rightarrow> (string list, unit) backend" where
  "example_backend p write_ok =
     \<lparr>train_model = (\<lambda>window learning_rate epochs batch_size X y. Inr ()),
      predict = (\<lambda>m window_slice. p),
      mkdir = (\<lambda>w. (None, w)),
      save_model = (\<lambda>path m w.
        if write_ok then (None, List.insert path w) else (Some ''No space left on device'', w)),
      dump_scaler = (\<lambda>path sc w. (None, List.insert path w)),
      path_exists = (\<lambda>w path. path \<in> set w),
      listdir = (\<lambda>w. Some w),
      load_scaler = (\<lambda>w path. Inr \<lparr>data_min = 0, data_max = 1, scale = 1, min_offset = 0\<rparr>),
      load_model = (\<lambda>w path. Inr ())\<rparr>"

text \<open>Three daily bars from day 0 on, with the given closes.\<close>

definition three_bars :: "real option \<Rightarrow> real option \<Rightarrow> real option \<Rightarrow> dataframe" where
  "three_bars a b c =
     [\<lparr>Date = 0, Close = a\<rparr>, \<lparr>Date = one_day, Close = b\<rparr>, \<lparr>Date = 2 * one_day, Close = c\<rparr>]"

text \<open>
  The same backend, but with a training that fails on the one pair of the window
  \<open>[0, 1/2]\<close> and the target 1, and succeeds on every other input.
\<close>

definition picky_backend :: "(string list, unit) backend" where
  "picky_backend =
     (example_backend 2 True)
       \<lparr>train_model := (\<lambda>window learning_rate epochs batch_size X y.
          if X = [[0, 1 / 2]] \<and> y = [1] then Inl ''loss is not finite'' else Inr ())\<rparr>"

section \<open>Properties of single precision rounding\<close>

lemma pow2_powr: "pow2 e = 2 powr of_int e"
proof (cases "0 \<le> e")
  case True
  have "(2::real) ^ nat e = 2 powr real (nat e)" by (simp only: powr_realpow zero_less_numeral)
  also have "real (nat e) = of_int e" using True by simp
  finally show ?thesis using True by (simp only: pow2_def if_True)
next
  case False
  have "(2::real) ^ nat (- e) = 2 powr real (nat (- e))"
    by (simp only: powr_realpow zero_less_numeral)
  also have "real (nat (- e)) = - of_int e" using False by simp
  finally have "1 / (2::real) ^ nat (- e) = 1 / 2 powr (- of_int e)" by simp
  also have "\<dots> = 2 powr of_int e" by (simp add: powr_minus_divide)
  finally show ?thesis using False by (simp only: pow2_def if_False)
qed

text \<open>The exponent is the integer part of the binary logarithm.\<close>

lemma exponent_log:
  assumes "0 < a"
  shows "exponent a = \<lfloor>log 2 a\<rfloor>"
proof -
  have "2 powr of_int (exponent a) \<le> a \<and> a < 2 powr (of_int (exponent a) + 1)"
  proof (cases "1 \<le> a")
    case True
    define n where "n = nat \<lfloor>a\<rfloor>"
    define l where "l = floorlog 2 n"
    have n: "0 < n" "real n \<le> a" "a < real n + 1"
      unfolding n_def using True by (simp_all add: le_floor_iff)
    have b: "2 ^ (l - 1) \<le> n" "n < 2 ^ l"
      unfolding l_def using floorlog_bounds[of n 2] n(1) by simp_all
    have l: "0 < l" using b(2) n(1) by (cases l) simp_all
    have e: "exponent a = int l - 1" unfolding exponent_def l_def n_def using True by simp
    have p1: "(2::real) powr of_int (int l - 1) = 2 ^ (l - 1)"
      using l by (simp add: powr_realpow[symmetric] of_nat_diff)
    have p2: "(2::real) powr (of_int (int l - 1) + 1) = 2 ^ l"
      by (simp add: powr_realpow[symmetric])
    have "(2::real) ^ (l - 1) \<le> real n"
      using b(1) by (metis of_nat_le_iff of_nat_numeral of_nat_power)
    hence lo: "(2::real) ^ (l - 1) \<le> a" using n(2) by linarith
    have "real n + 1 \<le> 2 ^ l"
    proof -
      have "n + 1 \<le> 2 ^ l" using b(2) by simp
      hence "real (n + 1) \<le> real (2 ^ l)" by (simp only: of_nat_le_iff)
      thus ?thesis by simp
    qed
    hence hi: "a < 2 ^ l" using n(3) by linarith
    show ?thesis unfolding e p1 p2 using lo hi by blast
  next
    case False
    hence lt: "a < 1" by simp
    define m where "m = nat (\<lceil>1 / a\<rceil> - 1)"
    define l where "l = floorlog 2 m"
    have inv: "1 < 1 / a" using assms lt by simp
    hence c2: "2 \<le> \<lceil>1 / a\<rceil>" by linarith
    have m: "0 < m" "real m < 1 / a" "1 / a \<le> real m + 1"
      unfolding m_def using c2 by (simp_all add: less_ceiling_iff) linarith+
    have b: "2 ^ (l - 1) \<le> m" "m < 2 ^ l"
      unfolding l_def using floorlog_bounds[of m 2] m(1) by simp_all
    have l: "0 < l" using b(2) m(1) by (cases l) simp_all
    have e: "exponent a = - int l" unfolding exponent_def l_def m_def using False by simp
    have p1: "(2::real) powr of_int (- int l) = 1 / 2 ^ l"
      by (simp add: powr_minus_divide powr_realpow)
    have p2: "(2::real) powr (of_int (- int l) + 1) = 1 / 2 ^ (l - 1)"
    proof -
      have "of_int (- int l) + 1 = - real (l - 1)" using l by (simp add: of_nat_diff)
      thus ?thesis by (simp only: powr_minus_divide powr_realpow zero_less_numeral)
    qed
    have "real m + 1 \<le> 2 ^ l"
    proof -
      have "m + 1 \<le> 2 ^ l" using b(2) by simp
      hence "real (m + 1) \<le> real (2 ^ l)" by (simp only: of_nat_le_iff)
      thus ?thesis by simp
    qed
    hence "1 / a \<le> 2 ^ l" using m(3) by linarith
    hence lo: "1 / 2 ^ l \<le> a" using assms by (simp add: field_simps)
    have "(2::real) ^ (l - 1) \<le> real m" using b(1) by (metis of_nat_le_iff of_nat_numeral of_nat_power)
    hence "2 ^ (l - 1) < 1 / a" using m(2) by linarith
    hence hi: "a < 1 / 2 ^ (l - 1)" using assms by (simp add: field_simps)
    show ?thesis unfolding e p1 p2 using lo hi by blast
  qed
  thus ?thesis using floor_log_eq_powr_iff[of a 2 "exponent a"] assms by simp
qed

lemma float32_log:
  "float32 x =
     (if x = 0 then 0
      else
        let q = 2 powr of_int (\<lfloor>log 2 \<bar>x\<bar>\<rfloor> - 23)
        in sgn x * (of_int (rne (\<bar>x\<bar> / q)) * q))"
proof (cases "x = 0")
  case True
  thus ?thesis by (simp add: float32_def)
next
  case False
  hence "exponent \<bar>x\<bar> = \<lfloor>log 2 \<bar>x\<bar>\<rfloor>" by (intro exponent_log) simp
  thus ?thesis unfolding float32_def pow2_powr by simp
qed







lemma float32_pos:
  assumes "0 < a"
  shows "float32 a = of_int (rne (a / 2 powr of_int (\<lfloor>log 2 a\<rfloor> - 23))) * 2 powr of_int (\<lfloor>log 2 a\<rfloor> - 23)"
  using assms by (simp add: float32_log Let_def)


lemma float32_0 [simp]: "float32 0 = 0"
  by (simp add: float32_log)








text \<open>Evaluation at a number of a known binade, from 1 upwards.\<close>

lemma float32_eval:
  assumes "2 ^ k \<le> a" "a < 2 ^ Suc k"
  shows "float32 a = of_int (rne (a * 2 ^ 23 / 2 ^ k)) * 2 ^ k / 2 ^ 23"
proof -
  have pos: "0 < a" using assms(1) by (smt (verit) zero_less_power)
  have "(2::real) powr of_int (int k) \<le> a" "a < 2 powr (of_int (int k) + 1)"
    using assms by (simp_all add: powr_realpow powr_add)
  hence e: "\<lfloor>log 2 a\<rfloor> = int k"
    using floor_log_eq_powr_iff[of a 2 "int k"] pos by simp
  have q: "(2::real) powr of_int (int k - 23) = 2 ^ k / 2 ^ 23"
    by (simp add: powr_diff powr_realpow)
  show ?thesis unfolding float32_pos[OF pos] e q by simp
qed

lemma float32_1: "float32 1 = 1"
  using float32_eval[of 0 1] by (simp add: rne_def)



text \<open>Halving commutes with the rounding, the exponent range being unbounded.\<close>

lemma float32_half: "float32 (x / 2) = float32 x / 2"
proof (cases "x = 0")
  case True
  thus ?thesis by simp
next
  case False
  hence pos: "0 < \<bar>x\<bar>" by simp
  have "log 2 (\<bar>x\<bar> / 2) = log 2 \<bar>x\<bar> - 1" using pos by (simp add: log_divide)
  hence e: "\<lfloor>log 2 \<bar>x / 2\<bar>\<rfloor> = \<lfloor>log 2 \<bar>x\<bar>\<rfloor> - 1" by simp
  define q :: real where "q = 2 powr of_int (\<lfloor>log 2 \<bar>x\<bar>\<rfloor> - 23)"
  have q': "2 powr of_int (\<lfloor>log 2 \<bar>x\<bar>\<rfloor> - 1 - 23) = q / 2"
    unfolding q_def by (simp add: powr_diff)
  have qpos: "0 < q" unfolding q_def by simp
  have r: "\<bar>x / 2\<bar> / (q / 2) = \<bar>x\<bar> / q" using qpos by simp
  have s: "sgn (x / 2) = sgn x" by (simp add: sgn_if)
  have "float32 (x / 2) = sgn x * (of_int (rne (\<bar>x\<bar> / q)) * (q / 2))"
    using False unfolding float32_log Let_def e q' r s by simp
  moreover have "float32 x = sgn x * (of_int (rne (\<bar>x\<bar> / q)) * q)"
    using False unfolding float32_log Let_def q_def by simp
  ultimately show ?thesis by simp
qed

lemma float32_1_2: "float32 (1 / 2) = 1 / 2"
  using float32_half[of 1] by (simp add: float32_1)

section \<open>Properties of the scaling transform\<close>

lemma list_min_Min: "xs \<noteq> [] \<Longrightarrow> list_min xs = Min (set xs)"
  by (induction xs rule: list_min.induct) auto

lemma list_max_Max: "xs \<noteq> [] \<Longrightarrow> list_max xs = Max (set xs)"
  by (induction xs rule: list_max.induct) auto

lemma fit_fields:
  assumes "fit xs = Inr s"
  shows "xs \<noteq> []"
    and "data_min s = Min (set xs)"
    and "data_max s = Max (set xs)"
    and "scale s = 1 / (if Max (set xs) = Min (set xs) then 1 else Max (set xs) - Min (set xs))"
    and "min_offset s = - (Min (set xs) * scale s)"
  using assms
  by (auto simp: fit_def Let_def list_min_Min list_max_Max split: if_splits)

lemma Min_le_Max: "xs \<noteq> [] \<Longrightarrow> Min (set xs) \<le> Max (set (xs :: real list))"
  by (simp add: Min_le_iff)

lemma fit_scale_pos:
  assumes "fit xs = Inr s"
  shows "0 < scale s"
proof -
  have ne: "xs \<noteq> []" using assms by (rule fit_fields)
  have le: "Min (set xs) \<le> Max (set xs)" using ne by (rule Min_le_Max)
  show ?thesis
  proof (cases "Max (set xs) = Min (set xs)")
    case True
    thus ?thesis using fit_fields(4)[OF assms] by simp
  next
    case False
    hence "0 < Max (set xs) - Min (set xs)" using le by simp
    thus ?thesis using fit_fields(4)[OF assms] False by simp
  qed
qed

lemma inverse_transform1_transform1:
  "scale s \<noteq> 0 \<Longrightarrow> inverse_transform1 s (transform1 s x) = x"
  by (simp add: inverse_transform1_def transform1_def)


lemma transform1_fit:
  assumes "fit xs = Inr s"
  shows "transform1 s x =
           (x - Min (set xs)) / (if Max (set xs) = Min (set xs) then 1 else Max (set xs) - Min (set xs))"
proof -
  have "transform1 s x = (x - Min (set xs)) * scale s"
    using fit_fields(5)[OF assms] by (simp add: transform1_def algebra_simps)
  thus ?thesis using fit_fields(4)[OF assms] by simp
qed

text \<open>
  Claim C7. For a min-max transform fitted on a series with at least two distinct values,
  a value within the observed range is scaled into \<open>[0, 1]\<close>, and scaling it and then
  applying the inverse gives the value back (in exact arithmetic).
\<close>

theorem scaling_round_trip:
  assumes "fit xs = Inr s"
    and "a \<in> set xs" and "b \<in> set xs" and "a \<noteq> b"
    and "Min (set xs) \<le> x" and "x \<le> Max (set xs)"
  shows "0 \<le> transform1 s x \<and> transform1 s x \<le> 1 \<and> inverse_transform1 s (transform1 s x) = x"
proof -
  have "scale s \<noteq> 0" using fit_scale_pos[OF assms(1)] by simp
  hence rt: "inverse_transform1 s (transform1 s x) = x" by (rule inverse_transform1_transform1)
  have "Min (set xs) \<le> a" "a \<le> Max (set xs)" "Min (set xs) \<le> b" "b \<le> Max (set xs)"
    using assms(2,3) by simp_all
  hence lt: "Min (set xs) < Max (set xs)" using assms(4) by linarith
  have eq: "transform1 s x = (x - Min (set xs)) / (Max (set xs) - Min (set xs))"
    using transform1_fit[OF assms(1)] lt by simp
  have "0 \<le> (x - Min (set xs)) / (Max (set xs) - Min (set xs))"
    using lt assms(5) by simp
  moreover have "(x - Min (set xs)) / (Max (set xs) - Min (set xs)) \<le> 1"
    using lt assms(6) by (simp add: divide_le_eq)
  ultimately show ?thesis using rt eq by simp
qed

theorem scaling_round_trip_witness:
  "fit [1, 3] = Inr \<lparr>data_min = 1, data_max = 3, scale = 1 / 2, min_offset = - (1 / 2)\<rparr>
   \<and> transform1 \<lparr>data_min = 1, data_max = 3, scale = 1 / 2, min_offset = - (1 / 2)\<rparr> 2 = 1 / 2
   \<and> inverse_transform1 \<lparr>data_min = 1, data_max = 3, scale = 1 / 2, min_offset = - (1 / 2)\<rparr>
        (transform1 \<lparr>data_min = 1, data_max = 3, scale = 1 / 2, min_offset = - (1 / 2)\<rparr> 2) = 2"
proof -
  have f: "fit [1, 3] = Inr \<lparr>data_min = 1, data_max = 3, scale = 1 / 2, min_offset = - (1 / 2)\<rparr>"
    by (simp add: fit_def)
  have t: "transform1 \<lparr>data_min = 1, data_max = 3, scale = 1 / 2, min_offset = - (1 / 2)\<rparr> 2 = 1 / 2"
    by (simp add: transform1_def)
  have "inverse_transform1 \<lparr>data_min = 1, data_max = 3, scale = 1 / 2, min_offset = - (1 / 2)\<rparr>
          (transform1 \<lparr>data_min = 1, data_max = 3, scale = 1 / 2, min_offset = - (1 / 2)\<rparr> 2) = 2"
    using scaling_round_trip[OF f, of 1 3 2] by simp
  with f t show ?thesis by (simp only: simp_thms)
qed

section \<open>Properties of the preprocessor\<close>

lemma length_make_sequences [simp]:
  "length (make_sequences window xs) = length xs - window"
  by (simp add: make_sequences_def)

lemma make_sequences_nth:
  "i < length xs - window \<Longrightarrow>
     make_sequences window xs ! i = (take window (drop i xs), xs ! (i + window))"
  by (simp add: make_sequences_def add.commute)

lemma make_sequences_nonempty: "window < length xs \<Longrightarrow> make_sequences window xs \<noteq> []"
proof -
  assume "window < length xs"
  hence "0 < length (make_sequences window xs)" by simp
  thus ?thesis by blast
qed

lemma make_sequences_single:
  assumes "length xs = window + 1"
  shows "make_sequences window xs = [(take window xs, xs ! window)]"
proof -
  have "[window..<length xs] = [window]" using assms by simp
  thus ?thesis by (simp add: make_sequences_def)
qed

lemma fit_transform_length:
  "fit_transform xs = Inr (sc, ys) \<Longrightarrow> length ys = length xs \<and> fit xs = Inr sc \<and> ys = map (transform1 sc) xs"
  by (auto simp: fit_transform_def transform_def split: sum.splits if_splits)

lemma fit_transform_nonempty: "xs \<noteq> [] \<Longrightarrow> \<exists>sc ys. fit_transform xs = Inr (sc, ys)"
  by (simp add: fit_transform_def fit_def transform_def Let_def)

lemma length_dropna_close_le: "length (dropna_close data) \<le> length data"
  by (simp add: dropna_close_def List.map_filter_def)

section \<open>Errors of the trainer\<close>

text \<open>The errors \<open>autotrain_compute\<close> can end with, one per raise of the source.\<close>

lemma autotrain_compute_errors:
  assumes "autotrain_compute env data days window epochs learning_rate = Inl e"
  shows "(e = InsufficientDataError \<and> length (dropna_close data) \<le> window)
       \<or> (window < length (dropna_close data)
          \<and> (e = reshape_error \<or> e = no_samples_error \<or> (\<exists>msg. e = ExternalError msg)))"
proof (cases "length (dropna_close data) \<le> window")
  case True
  thus ?thesis using assms by (simp add: autotrain_compute_def)
next
  case False
  hence gt: "window < length (map snd (dropna_close data))" by simp
  hence "map snd (dropna_close data) \<noteq> []" by auto
  then obtain sc ys where ft: "fit_transform (map snd (dropna_close data)) = Inr (sc, ys)"
    using fit_transform_nonempty by blast
  hence "length ys = length (map snd (dropna_close data))" by (simp add: fit_transform_length)
  hence "make_sequences window ys \<noteq> []" using gt by (simp add: make_sequences_nonempty)
  hence seq: "map fst (make_sequences window ys) \<noteq> []" by simp
  have loop_err: "e' = reshape_error"
    if "autotrain_loop p window d h acc = Inl e'" for p d h acc e'
    using that by (induction d arbitrary: h acc) (auto simp: Let_def split: if_splits)
  show ?thesis
    using assms False ft seq
    by (auto simp: autotrain_compute_def Let_def inverse_transform_float32_def
        split: sum.splits prod.splits if_splits dest: loop_err)
qed

lemma error_literals_distinct:
  "InsufficientDataError \<noteq> NoTrainingSequencesError"
  "reshape_error \<noteq> NoTrainingSequencesError"
  "no_samples_error \<noteq> NoTrainingSequencesError"
  "iloc_error \<noteq> NoTrainingSequencesError"
  "reshape_error \<noteq> InsufficientDataError"
  "no_samples_error \<noteq> InsufficientDataError"
  "iloc_error \<noteq> InsufficientDataError"
  by (simp_all add: InsufficientDataError_def NoTrainingSequencesError_def reshape_error_def
      no_samples_error_def iloc_error_def)

text \<open>The trainer fails either in \<open>autotrain_compute\<close>, or in the persistence block.\<close>

lemma forecast_lstm_autotrain_errors:
  assumes "fst (forecast_lstm_autotrain env data days window epochs learning_rate ticker persist w) = Inl e"
  shows "autotrain_compute env data days window epochs learning_rate = Inl e
       \<or> (window < length (dropna_close data) \<and> (\<exists>msg. e = ExternalError msg))"
proof (cases "autotrain_compute env data days window epochs learning_rate")
  case (Inl e')
  thus ?thesis using assms by (simp add: forecast_lstm_autotrain_def)
next
  case (Inr r)
  have "window < length (dropna_close data)"
    using Inr by (auto simp: autotrain_compute_def Let_def split: if_splits)
  hence "data \<noteq> []" using length_dropna_close_le[of data] by auto
  thus ?thesis
    using assms Inr \<open>window < length (dropna_close data)\<close>
    by (auto simp: forecast_lstm_autotrain_def Let_def
        split: sum.splits prod.splits option.splits list.splits if_splits)
qed

text \<open>
  Claim C10. The branch of \<^verbatim>\<open>forecast_lstm_autotrain\<close> that raises "Unable to create
  training sequences" is unreachable: past the guard, the scaled series is longer than
  the window, so the sequence loop yields at least one pair, and whatever the inputs the
  function never fails with that error.
\<close>

theorem no_training_sequences_unreachable:
  "(window < length closes_scaled \<longrightarrow> make_sequences window closes_scaled \<noteq> [])
   \<and> fst (forecast_lstm_autotrain env data days window epochs learning_rate ticker persist w)
       \<noteq> Inl NoTrainingSequencesError"
proof
  show "window < length closes_scaled \<longrightarrow> make_sequences window closes_scaled \<noteq> []"
    by (simp add: make_sequences_nonempty)
next
  show "fst (forecast_lstm_autotrain env data days window epochs learning_rate ticker persist w)
          \<noteq> Inl NoTrainingSequencesError"
  proof
    assume a: "fst (forecast_lstm_autotrain env data days window epochs learning_rate ticker persist w)
                 = Inl NoTrainingSequencesError"
    have ext: "NoTrainingSequencesError \<noteq> ExternalError msg" for msg
      by (simp add: NoTrainingSequencesError_def)
    from forecast_lstm_autotrain_errors[OF a]
    have "autotrain_compute env data days window epochs learning_rate = Inl NoTrainingSequencesError"
      using ext by auto
    from autotrain_compute_errors[OF this] show False
      using ext error_literals_distinct by auto
  qed
qed

theorem no_training_sequences_unreachable_witness:
  "make_sequences 2 [0, 1 / 2, 1] \<noteq> []
   \<and> fst (forecast_lstm_autotrain (example_backend 2 True)
            (three_bars (Some 1) (Some 2) (Some 3)) 2 2 8 (5 / 10000) None False [])
       \<noteq> Inl NoTrainingSequencesError"
  using no_training_sequences_unreachable
          [of 2 "[0, 1 / 2, 1]" "example_backend 2 True" "three_bars (Some 1) (Some 2) (Some 3)"
              2 8 "5 / 10000" None False "[]"]
  by simp

text \<open>
  Past the guard and for a positive window, the trainer is the network's training on the
  float32 arrays of the pairs, followed by the prediction loop and the decoding.
\<close>

lemma autotrain_compute_trained:
  assumes "window < length (dropna_close data)" and "0 < window"
    and "fit_transform (map snd (dropna_close data)) = Inr (sc, closes_scaled)"
  shows "autotrain_compute env data days window epochs learning_rate =
     (case train_model env window learning_rate epochs
             (min 32 (length (dropna_close data) - window))
             (map (map float32) (map fst (make_sequences window closes_scaled)))
             (map float32 (map snd (make_sequences window closes_scaled))) of
        Inl msg \<Rightarrow> Inl (ExternalError msg)
      | Inr m \<Rightarrow>
          (case autotrain_loop (predict env m) window days closes_scaled [] of
             Inl e \<Rightarrow> Inl e
           | Inr preds_scaled \<Rightarrow>
               (case inverse_transform_float32 sc preds_scaled of
                  Inl e \<Rightarrow> Inl e
                | Inr preds \<Rightarrow> Inr (preds, sc, m))))"
proof -
  have len: "length closes_scaled = length (dropna_close data)"
    using fit_transform_length[OF assms(3)] by simp
  hence ne: "make_sequences window closes_scaled \<noteq> []"
    using assms(1) by (simp add: make_sequences_nonempty)
  have "0 < length (dropna_close data) - window" using assms(1) by simp
  hence b: "(min 32 (length (dropna_close data) - window) = 0) = False"
    by (simp add: min_def)
  show ?thesis
    using assms ne len
    by (simp add: autotrain_compute_def Let_def b)
qed

lemma forecast_lstm_autotrain_cong:
  assumes "autotrain_compute env' data days window epochs learning_rate
             = autotrain_compute env data days window epochs learning_rate"
    and "mkdir env' = mkdir env" and "save_model env' = save_model env"
    and "dump_scaler env' = dump_scaler env"
  shows "forecast_lstm_autotrain env' data days window epochs learning_rate ticker persist w
           = forecast_lstm_autotrain env data days window epochs learning_rate ticker persist w"
proof -
  have pa: "persist_artifacts env' = persist_artifacts env"
  proof (intro ext)
    fix t m sc w
    show "persist_artifacts env' t m sc w = persist_artifacts env t m sc w"
      unfolding persist_artifacts_def assms(2) assms(3) assms(4) by (rule refl)
  qed
  show ?thesis unfolding forecast_lstm_autotrain_def assms(1) pa by (rule refl)
qed

text \<open>
  Claim C5. \<^verbatim>\<open>forecast_lstm_autotrain\<close> fails with InsufficientDataError exactly when the
  series has \<open>window\<close> or fewer usable closes. Otherwise the scaled series gives
  \<open>len - window\<close> pairs, the \<open>i\<close>-th being the \<open>window\<close> values from position \<open>i\<close> and the
  value after them, and exactly one pair for \<open>window + 1\<close> usable points; these pairs, as
  float32 arrays, are what the function trains on: a failure of the training on them is
  the function's failure, and the function's result depends on the training only through
  its outcome on them.
\<close>

theorem insufficient_data_and_training_pairs:
  "(fst (forecast_lstm_autotrain env data days window epochs learning_rate ticker persist w)
      = Inl InsufficientDataError
    \<longleftrightarrow> length (dropna_close data) \<le> window)
   \<and> (window < length (dropna_close data) \<longrightarrow>
        (\<exists>sc closes_scaled.
           fit_transform (map snd (dropna_close data)) = Inr (sc, closes_scaled)
           \<and> length (make_sequences window closes_scaled) = length (dropna_close data) - window
           \<and> (\<forall>i < length (dropna_close data) - window.
                 make_sequences window closes_scaled ! i
                   = (take window (drop i closes_scaled), closes_scaled ! (i + window)))
           \<and> (length (dropna_close data) = window + 1 \<longrightarrow>
                 make_sequences window closes_scaled
                   = [(take window closes_scaled, closes_scaled ! window)])
           \<and> (0 < window \<longrightarrow>
                 (\<forall>msg. train_model env window learning_rate epochs
                          (min 32 (length (dropna_close data) - window))
                          (map (map float32) (map fst (make_sequences window closes_scaled)))
                          (map float32 (map snd (make_sequences window closes_scaled))) = Inl msg
                        \<longrightarrow> forecast_lstm_autotrain env data days window epochs learning_rate
                              ticker persist w
                            = (Inl (ExternalError msg), w))
                 \<and> forecast_lstm_autotrain env data days window epochs learning_rate ticker persist w
                   = forecast_lstm_autotrain
                       (env\<lparr>train_model := (\<lambda>window' learning_rate' epochs' batch_size' X y.
                          train_model env window learning_rate epochs
                            (min 32 (length (dropna_close data) - window))
                            (map (map float32) (map fst (make_sequences window closes_scaled)))
                            (map float32 (map snd (make_sequences window closes_scaled))))\<rparr>)
                       data days window epochs learning_rate ticker persist w)))"
proof (intro conjI impI)
  show "fst (forecast_lstm_autotrain env data days window epochs learning_rate ticker persist w)
          = Inl InsufficientDataError
        \<longleftrightarrow> length (dropna_close data) \<le> window"
  proof
    assume a: "fst (forecast_lstm_autotrain env data days window epochs learning_rate ticker persist w)
                 = Inl InsufficientDataError"
    have ext: "InsufficientDataError \<noteq> ExternalError msg" for msg
      by (simp add: InsufficientDataError_def)
    from forecast_lstm_autotrain_errors[OF a]
    have "autotrain_compute env data days window epochs learning_rate = Inl InsufficientDataError"
      using ext by auto
    from autotrain_compute_errors[OF this] show "length (dropna_close data) \<le> window"
      using ext error_literals_distinct by auto
  next
    assume "length (dropna_close data) \<le> window"
    thus "fst (forecast_lstm_autotrain env data days window epochs learning_rate ticker persist w)
            = Inl InsufficientDataError"
      by (simp add: forecast_lstm_autotrain_def autotrain_compute_def)
  qed
next
  assume gt: "window < length (dropna_close data)"
  hence "map snd (dropna_close data) \<noteq> []" by auto
  then obtain sc closes_scaled where
    ft: "fit_transform (map snd (dropna_close data)) = Inr (sc, closes_scaled)"
    using fit_transform_nonempty by blast
  hence len: "length closes_scaled = length (dropna_close data)"
    using fit_transform_length by fastforce
  let ?pairs = "make_sequences window closes_scaled"
  let ?outcome = "train_model env window learning_rate epochs
                    (min 32 (length (dropna_close data) - window))
                    (map (map float32) (map fst ?pairs)) (map float32 (map snd ?pairs))"
  let ?env' = "env\<lparr>train_model := (\<lambda>window' learning_rate' epochs' batch_size' X y. ?outcome)\<rparr>"
  have n: "length ?pairs = length (dropna_close data) - window" using len by simp
  have nth: "\<forall>i < length (dropna_close data) - window.
               ?pairs ! i = (take window (drop i closes_scaled), closes_scaled ! (i + window))"
    using len by (simp add: make_sequences_nth)
  have single: "length (dropna_close data) = window + 1 \<longrightarrow>
                  ?pairs = [(take window closes_scaled, closes_scaled ! window)]"
    using len by (simp add: make_sequences_single)
  have trained: "0 < window \<longrightarrow>
      (\<forall>msg. ?outcome = Inl msg \<longrightarrow>
          forecast_lstm_autotrain env data days window epochs learning_rate ticker persist w
            = (Inl (ExternalError msg), w))
      \<and> forecast_lstm_autotrain env data days window epochs learning_rate ticker persist w
        = forecast_lstm_autotrain ?env' data days window epochs learning_rate ticker persist w"
  proof (intro impI conjI allI)
    fix msg
    assume w: "0 < window" and f: "?outcome = Inl msg"
    have "autotrain_compute env data days window epochs learning_rate = Inl (ExternalError msg)"
      unfolding autotrain_compute_trained[OF gt w ft] f by simp
    thus "forecast_lstm_autotrain env data days window epochs learning_rate ticker persist w
            = (Inl (ExternalError msg), w)"
      by (simp add: forecast_lstm_autotrain_def)
  next
    assume w: "0 < window"
    have "autotrain_compute ?env' data days window epochs learning_rate
            = autotrain_compute env data days window epochs learning_rate"
      unfolding autotrain_compute_trained[OF gt w ft] by (simp cong: sum.case_cong)
    hence "forecast_lstm_autotrain ?env' data days window epochs learning_rate ticker persist w
             = forecast_lstm_autotrain env data days window epochs learning_rate ticker persist w"
      by (rule forecast_lstm_autotrain_cong) simp_all
    thus "forecast_lstm_autotrain env data days window epochs learning_rate ticker persist w
        = forecast_lstm_autotrain ?env' data days window epochs learning_rate ticker persist w"
      by simp
  qed
  show "\<exists>sc closes_scaled.
           fit_transform (map snd (dropna_close data)) = Inr (sc, closes_scaled)
           \<and> length (make_sequences window closes_scaled) = length (dropna_close data) - window
           \<and> (\<forall>i < length (dropna_close data) - window.
                 make_sequences window closes_scaled ! i
                   = (take window (drop i closes_scaled), closes_scaled ! (i + window)))
           \<and> (length (dropna_close data) = window + 1 \<longrightarrow>
                 make_sequences window closes_scaled
                   = [(take window closes_scaled, closes_scaled ! window)])
           \<and> (0 < window \<longrightarrow>
                 (\<forall>msg. train_model env window learning_rate epochs
                          (min 32 (length (dropna_close data) - window))
                          (map (map float32) (map fst (make_sequences window closes_scaled)))
                          (map float32 (map snd (make_sequences window closes_scaled))) = Inl msg
                        \<longrightarrow> forecast_lstm_autotrain env data days window epochs learning_rate
                              ticker persist w
                            = (Inl (ExternalError msg), w))
                 \<and> forecast_lstm_autotrain env data days window epochs learning_rate ticker persist w
                   = forecast_lstm_autotrain
                       (env\<lparr>train_model := (\<lambda>window' learning_rate' epochs' batch_size' X y.
                          train_model env window learning_rate epochs
                            (min 32 (length (dropna_close data) - window))
                            (map (map float32) (map fst (make_sequences window closes_scaled)))
                            (map float32 (map snd (make_sequences window closes_scaled))))\<rparr>)
                       data days window epochs learning_rate ticker persist w)"
    using ft n nth single trained by blast
qed

theorem insufficient_data_and_training_pairs_witness:
  "fst (forecast_lstm_autotrain (example_backend 2 True)
          (three_bars (Some 1) None (Some 3)) 1 2 8 (5 / 10000) None False [])
     = Inl InsufficientDataError
   \<and> length (dropna_close (three_bars (Some 1) None (Some 3))) = 2
   \<and> fit_transform (map snd (dropna_close (three_bars (Some 1) (Some 2) (Some 3))))
       = Inr (\<lparr>data_min = 1, data_max = 3, scale = 1 / 2, min_offset = - (1 / 2)\<rparr>, [0, 1 / 2, 1])
   \<and> make_sequences 2 [0, 1 / 2, 1] = [([0, 1 / 2], 1)]
   \<and> forecast_lstm_autotrain picky_backend (three_bars (Some 1) (Some 2) (Some 3))
         1 2 8 (5 / 10000) None False []
       = (Inl (ExternalError ''loss is not finite''), [])"
proof -
  let ?sc = "\<lparr>data_min = 1, data_max = 3, scale = 1 / 2, min_offset = - (1 / 2)\<rparr>"
  let ?data = "three_bars (Some 1) (Some 2) (Some 3)"
  have d2: "length (dropna_close (three_bars (Some 1) None (Some 3))) = 2"
    by (simp add: dropna_close_def List.map_filter_def three_bars_def)
  have d3: "length (dropna_close ?data) = 3"
    by (simp add: dropna_close_def List.map_filter_def three_bars_def)
  have ft: "fit_transform (map snd (dropna_close ?data)) = Inr (?sc, [0, 1 / 2, 1])"
    by (simp add: dropna_close_def List.map_filter_def three_bars_def fit_transform_def fit_def
        transform_def transform1_def)
  have a: "fst (forecast_lstm_autotrain (example_backend 2 True)
          (three_bars (Some 1) None (Some 3)) 1 2 8 (5 / 10000) None False [])
     = Inl InsufficientDataError"
    using insufficient_data_and_training_pairs
            [of "example_backend 2 True" "three_bars (Some 1) None (Some 3)" 1 2 8 "5 / 10000"
                None False "[]", THEN conjunct1] d2
    by simp
  have gt: "2 < length (dropna_close ?data)" using d3 by simp
  from insufficient_data_and_training_pairs
         [of picky_backend ?data 1 2 8 "5 / 10000" None False "[]",
          THEN conjunct2, THEN mp, OF gt]
  obtain sc closes_scaled where
    ft': "fit_transform (map snd (dropna_close ?data)) = Inr (sc, closes_scaled)"
    and single: "length (dropna_close ?data) = 2 + 1 \<longrightarrow>
                   make_sequences 2 closes_scaled = [(take 2 closes_scaled, closes_scaled ! 2)]"
    and fail: "\<forall>msg. train_model picky_backend 2 (5 / 10000) 8
                         (min 32 (length (dropna_close ?data) - 2))
                         (map (map float32) (map fst (make_sequences 2 closes_scaled)))
                         (map float32 (map snd (make_sequences 2 closes_scaled))) = Inl msg
                 \<longrightarrow> forecast_lstm_autotrain picky_backend ?data 1 2 8 (5 / 10000) None False []
                       = (Inl (ExternalError msg), [])"
    by auto
  have cs: "closes_scaled = [0, 1 / 2, 1]" using ft ft' by simp
  have b: "make_sequences 2 [0, 1 / 2, 1] = [([0, 1 / 2], 1)]"
    using single d3 unfolding cs by simp
  have "train_model picky_backend 2 (5 / 10000) 8
          (min 32 (length (dropna_close ?data) - 2))
          (map (map float32) (map fst (make_sequences 2 closes_scaled)))
          (map float32 (map snd (make_sequences 2 closes_scaled))) = Inl ''loss is not finite''"
    unfolding cs b by (simp add: picky_backend_def float32_1 float32_1_2)
  hence c: "forecast_lstm_autotrain picky_backend ?data 1 2 8 (5 / 10000) None False []
              = (Inl (ExternalError ''loss is not finite''), [])"
    using fail by blast
  from a d2 ft b c show ?thesis by (simp only: simp_thms)
qed

section \<open>Properties of the prediction loops\<close>


lemma autotrain_loop_length:
  "autotrain_loop p window days history acc = Inr ps \<Longrightarrow> length ps = length acc + days"
proof (induction days arbitrary: history acc)
  case 0
  thus ?case by simp
next
  case (Suc days)
  let ?next = "clip01 (p (map float32 (last_window window history)))"
  from Suc.prems have "autotrain_loop p window days (history @ [?next]) (acc @ [?next]) = Inr ps"
    by (simp add: Let_def split: if_splits)
  from Suc.IH[OF this] show ?case by simp
qed

text \<open>
  The two loops agree on a model whose raw predictions already lie in \<open>[0, 1]\<close> and do not
  change when the window slice is cast to float32.
\<close>

lemma clip01_id: "0 \<le> x \<Longrightarrow> x \<le> 1 \<Longrightarrow> clip01 x = x"
  by (simp add: clip01_def)

lemma loops_agree_in_unit_interval:
  assumes "\<And>ws. 0 \<le> p ws \<and> p ws \<le> 1" and "\<And>ws. p (map float32 ws) = p ws"
  shows "inference_loop p window days history acc = autotrain_loop p window days history acc"
proof (induction days arbitrary: history acc)
  case 0
  show ?case by simp
next
  case (Suc days)
  have "clip01 (p (map float32 (last_window window history))) = p (last_window window history)"
    using assms by (simp add: clip01_id)
  thus ?case using Suc.IH by (simp add: Let_def)
qed

section \<open>Successful runs of the trainer\<close>

lemma autotrain_compute_success:
  assumes "autotrain_compute env data days window epochs learning_rate = Inr (preds, sc, m)"
  shows "window < length (dropna_close data)
       \<and> fit (map snd (dropna_close data)) = Inr sc
       \<and> (\<exists>preds_scaled.
            autotrain_loop (predict env m) window days
              (map (transform1 sc) (map snd (dropna_close data))) [] = Inr preds_scaled
            \<and> preds_scaled \<noteq> []
            \<and> preds = map (inverse_transform1_float32 sc) (map float32 preds_scaled))"
proof -
  have gt: "window < length (dropna_close data)"
    using assms by (auto simp: autotrain_compute_def Let_def split: if_splits)
  obtain sc' ys where ft: "fit_transform (map snd (dropna_close data)) = Inr (sc', ys)"
    using assms gt
    by (auto simp: autotrain_compute_def Let_def split: if_splits sum.splits)
  note ftl = fit_transform_length[OF ft]
  show ?thesis
    using assms gt ft ftl
    by (auto simp: autotrain_compute_def Let_def inverse_transform_float32_def
        split: if_splits sum.splits prod.splits)
qed


section \<open>Persistence in the trainer\<close>

lemma forecast_lstm_autotrain_persist:
  assumes "autotrain_compute env data days window epochs learning_rate = Inr (preds, sc, m)"
    and "t \<noteq> []"
  shows "forecast_lstm_autotrain env data days window epochs learning_rate (Some t) True w =
           (case persist_artifacts env t m sc w of
              (Some msg, w') \<Rightarrow> (Inl (ExternalError msg), w')
            | (None, w') \<Rightarrow>
                (Inr (zip (date_range (Date (last data) + one_day) days) preds), w'))"
proof -
  have "window < length (dropna_close data)"
    using autotrain_compute_success[OF assms(1)] by blast
  hence "data \<noteq> []" using length_dropna_close_le[of data] by auto
  then obtain r rs where "data = r # rs" by (cases data) auto
  thus ?thesis
    using assms
    by (simp add: forecast_lstm_autotrain_def Let_def split: prod.splits option.splits)
qed

lemma forecast_lstm_autotrain_no_persist:
  assumes "autotrain_compute env data days window epochs learning_rate = Inr (preds, sc, m)"
  shows "forecast_lstm_autotrain env data days window epochs learning_rate ticker False w =
           (Inr (zip (date_range (Date (last data) + one_day) days) preds), w)"
proof -
  have "window < length (dropna_close data)"
    using autotrain_compute_success[OF assms(1)] by blast
  hence "data \<noteq> []" using length_dropna_close_le[of data] by auto
  then obtain r rs where "data = r # rs" by (cases data) auto
  thus ?thesis
    using assms
    by (simp add: forecast_lstm_autotrain_def Let_def split: prod.splits option.splits)
qed

text \<open>
  Claim C1, as the code has it. With the persistence flag set and a non-empty ticker,
  once the forecast is computed: a failure of the persistence block leaves the function
  as that exception, and no forecast is returned; when the block succeeds the function
  returns the computed forecast, the same values as a run without persistence.
\<close>

theorem persistence_failure_propagates:
  assumes "autotrain_compute env data days window epochs learning_rate = Inr (preds, sc, m)"
    and "t \<noteq> []"
  shows "(persist_artifacts env t m sc w = (Some msg, w') \<longrightarrow>
            forecast_lstm_autotrain env data days window epochs learning_rate (Some t) True w
              = (Inl (ExternalError msg), w'))
       \<and> (persist_artifacts env t m sc w = (None, w') \<longrightarrow>
            forecast_lstm_autotrain env data days window epochs learning_rate (Some t) True w
              = (Inr (zip (date_range (Date (last data) + one_day) days) preds), w')
            \<and> fst (forecast_lstm_autotrain env data days window epochs learning_rate (Some t) True w)
              = fst (forecast_lstm_autotrain env data days window epochs learning_rate (Some t) False w))"
  using forecast_lstm_autotrain_persist[OF assms, of w]
        forecast_lstm_autotrain_no_persist[OF assms(1), of "Some t" w]
  by simp

theorem persistence_failure_propagates_witness:
  "autotrain_compute (example_backend 2 False) (three_bars (Some 1) (Some 2) (Some 3)) 2 2 8 (5 / 10000)
     = Inr ([3, 3], \<lparr>data_min = 1, data_max = 3, scale = 1 / 2, min_offset = - (1 / 2)\<rparr>, ())
   \<and> persist_artifacts (example_backend 2 False) ''aapl'' ()
        \<lparr>data_min = 1, data_max = 3, scale = 1 / 2, min_offset = - (1 / 2)\<rparr> []
       = (Some ''No space left on device'', [])
   \<and> forecast_lstm_autotrain (example_backend 2 False) (three_bars (Some 1) (Some 2) (Some 3))
        2 2 8 (5 / 10000) (Some ''aapl'') True []
       = (Inl (ExternalError ''No space left on device''), [])"
proof -
  have c: "autotrain_compute (example_backend 2 False) (three_bars (Some 1) (Some 2) (Some 3)) 2 2 8 (5 / 10000)
     = Inr ([3, 3], \<lparr>data_min = 1, data_max = 3, scale = 1 / 2, min_offset = - (1 / 2)\<rparr>, ())"
    by code_simp
  have p: "persist_artifacts (example_backend 2 False) ''aapl'' ()
        \<lparr>data_min = 1, data_max = 3, scale = 1 / 2, min_offset = - (1 / 2)\<rparr> []
       = (Some ''No space left on device'', [])"
    by (simp add: persist_artifacts_def example_backend_def)
  have ne: "''aapl'' \<noteq> []" by simp
  from persistence_failure_propagates[OF c ne, THEN conjunct1, THEN mp, OF p]
  have "forecast_lstm_autotrain (example_backend 2 False) (three_bars (Some 1) (Some 2) (Some 3))
        2 2 8 (5 / 10000) (Some ''aapl'') True []
       = (Inl (ExternalError ''No space left on device''), [])" .
  with c p show ?thesis by (simp only: simp_thms)
qed

text \<open>
  The claim as stated fails when \<^verbatim>\<open>model.save\<close> raises: the forecast \<open>[3, 3]\<close> has been
  computed, and the call ends with the exception of the file system instead of it.
\<close>

theorem persistence_failure_counterexample:
  "autotrain_compute (example_backend 2 False) (three_bars (Some 1) (Some 2) (Some 3)) 2 2 8 (5 / 10000)
     = Inr ([3, 3], \<lparr>data_min = 1, data_max = 3, scale = 1 / 2, min_offset = - (1 / 2)\<rparr>, ())
   \<and> forecast_lstm_autotrain (example_backend 2 False) (three_bars (Some 1) (Some 2) (Some 3))
        2 2 8 (5 / 10000) (Some ''aapl'') True []
       = (Inl (ExternalError ''No space left on device''), [])
   \<and> forecast_lstm_autotrain (example_backend 2 True) (three_bars (Some 1) (Some 2) (Some 3))
        2 2 8 (5 / 10000) (Some ''aapl'') True []
       = (Inr [(3 * one_day, 3), (4 * one_day, 3)], [''scaler_AAPL.save'', ''lstm_AAPL.keras''])"
proof -
  have a: "autotrain_compute (example_backend 2 False) (three_bars (Some 1) (Some 2) (Some 3)) 2 2 8 (5 / 10000)
     = Inr ([3, 3], \<lparr>data_min = 1, data_max = 3, scale = 1 / 2, min_offset = - (1 / 2)\<rparr>, ())"
    by code_simp
  have b: "forecast_lstm_autotrain (example_backend 2 False) (three_bars (Some 1) (Some 2) (Some 3))
        2 2 8 (5 / 10000) (Some ''aapl'') True []
       = (Inl (ExternalError ''No space left on device''), [])"
    by code_simp
  have c: "forecast_lstm_autotrain (example_backend 2 True) (three_bars (Some 1) (Some 2) (Some 3))
        2 2 8 (5 / 10000) (Some ''aapl'') True []
       = (Inr [(3 * one_day, 3), (4 * one_day, 3)], [''scaler_AAPL.save'', ''lstm_AAPL.keras''])"
    by code_simp
  from a b c show ?thesis by (simp only: simp_thms)
qed

section \<open>Decoding in single precision\<close>





section \<open>Evaluating the trainer on the examples\<close>







text \<open>
  The same on the closes 100.1, 100.2, 100.3: the forecast is \<open>6573261/65536\<close>
  (100.30000305175781), the float32 next to 100.3 and above it.
\<close>

lemma forecast_decimal_example:
  "forecast_lstm_autotrain (example_backend 2 True)
     (three_bars (Some (1001 / 10)) (Some (1002 / 10)) (Some (1003 / 10)))
     1 2 8 (5 / 10000) None False []
     = (Inr [(3 * one_day, 6573261 / 65536)], [])
   \<and> (1003 / 10 :: real) < 6573261 / 65536"
  by code_simp

text \<open>
  Claim C2, evaluated on the code. On a model that predicts the scaled value 2, the loop
  of \<^verbatim>\<open>forecast_lstm_inference\<close> appends 2 at each step, while the loop of
  \<^verbatim>\<open>forecast_lstm_autotrain\<close>, run with the same model, window and scaled history, appends
  the clipped value 1: the inference loop does not clamp its predictions.
\<close>

theorem inference_loop_does_not_clamp:
  "inference_loop (\<lambda>window_slice. 2) 1 2 [1 / 2] [] = Inr [2, 2]
   \<and> autotrain_loop (\<lambda>window_slice. 2) 1 2 [1 / 2] [] = Inr [1, 1]"
  by (simp add: numeral_2_eq_2 last_window_def clip01_def)

section \<open>Properties of the linear trend forecaster\<close>

lemma forecast_linear_empty: "forecast_linear [] days = Inl EmptySeriesError"
  by (simp add: forecast_linear_def)

lemma dropna_close_nonempty_data: "dropna_close data \<noteq> [] \<Longrightarrow> data \<noteq> []"
  by (auto simp: dropna_close_def List.map_filter_def)

lemma polyfit1_nonempty: "ys \<noteq> [] \<Longrightarrow> \<exists>slope intercept. polyfit1 ys = Inr (slope, intercept)"
  by (simp add: polyfit1_def Let_def)

text \<open>With a usable close, the forecast is a line sampled at the indices after the series.\<close>

lemma forecast_linear_usable:
  assumes "dropna_close data \<noteq> []"
  shows "\<exists>slope intercept.
           forecast_linear data days =
             Inr (zip (date_range (fst (last (dropna_close data)) + one_day) days)
                    (map (\<lambda>x. slope * x + intercept)
                       (map real [length (dropna_close data)..<length (dropna_close data) + days])))"
proof -
  have d: "data \<noteq> []" using assms by (rule dropna_close_nonempty_data)
  obtain r rs where c: "dropna_close data = r # rs" using assms by (cases "dropna_close data") auto
  show ?thesis
  proof (cases "length (dropna_close data) = 1")
    case True
    hence "forecast_linear data days =
             Inr (zip (date_range (fst (last (dropna_close data)) + one_day) days)
                    (map (\<lambda>x. 0 * x + snd r)
                       (map real [length (dropna_close data)..<length (dropna_close data) + days])))"
      using d c by (simp add: forecast_linear_def Let_def del: upt_Suc)
    thus ?thesis by blast
  next
    case False
    have "map snd (dropna_close data) \<noteq> []" using assms by simp
    then obtain slope intercept where "polyfit1 (map snd (dropna_close data)) = Inr (slope, intercept)"
      using polyfit1_nonempty by blast
    hence "forecast_linear data days =
             Inr (zip (date_range (fst (last (dropna_close data)) + one_day) days)
                    (map (\<lambda>x. slope * x + intercept)
                       (map real [length (dropna_close data)..<length (dropna_close data) + days])))"
      using d c False by (simp add: forecast_linear_def Let_def del: upt_Suc)
    thus ?thesis by blast
  qed
qed

lemma forecast_linear_single:
  assumes "dropna_close data = [(d, c)]"
  shows "forecast_linear data days = Inr (map (\<lambda>k. (d + (int k + 1) * one_day, c)) [0..<days])"
proof -
  have ne: "data \<noteq> []" using assms dropna_close_nonempty_data[of data] by simp
  have "zip (date_range (d + one_day) days) (map (\<lambda>x. c) (map real [Suc 0..<Suc days]))
          = map (\<lambda>k. (d + (int k + 1) * one_day, c)) [0..<days]"
    by (rule nth_equalityI) (simp_all add: date_range_def algebra_simps del: upt_Suc)
  thus ?thesis using ne assms by (simp add: forecast_linear_def Let_def del: upt_Suc)
qed

text \<open>A frame that has every close keeps all its rows under \<^verbatim>\<open>dropna\<close>.\<close>

lemma dropna_close_clean:
  "\<forall>r \<in> set data. Close r \<noteq> None \<Longrightarrow>
     dropna_close data = map (\<lambda>r. (Date r, the (Close r))) data"
  by (induction data) (auto simp: dropna_close_def List.map_filter_def)

text \<open>
  Claim C6. On the series the forecaster is given, whose rows all have a close (the loader
  drops the others): a non-empty series and a horizon of at least one day give exactly
  \<open>days\<close> values, the \<open>k\<close>-th dated \<open>k + 1\<close> days after the last historical date, so on
  consecutive days from the day after it; the empty series fails with EmptySeriesError;
  a single-point series gives that point's close at every date.
\<close>

theorem forecast_linear_contract:
  "forecast_linear [] days = Inl EmptySeriesError
   \<and> (data \<noteq> [] \<and> (\<forall>r \<in> set data. Close r \<noteq> None) \<and> 1 \<le> days \<longrightarrow>
        (\<exists>fc. forecast_linear data days = Inr fc
              \<and> length fc = days
              \<and> (\<forall>k < days. fst (fc ! k) = Date (last data) + (int k + 1) * one_day)))
   \<and> forecast_linear [\<lparr>Date = d, Close = Some c\<rparr>] days
       = Inr (map (\<lambda>k. (d + (int k + 1) * one_day, c)) [0..<days])"
proof (intro conjI impI)
  show "forecast_linear [] days = Inl EmptySeriesError" by (rule forecast_linear_empty)
next
  assume a: "data \<noteq> [] \<and> (\<forall>r \<in> set data. Close r \<noteq> None) \<and> 1 \<le> days"
  hence clean: "dropna_close data = map (\<lambda>r. (Date r, the (Close r))) data"
    by (simp add: dropna_close_clean)
  hence ne: "dropna_close data \<noteq> []" using a by simp
  have last: "fst (last (dropna_close data)) = Date (last data)"
    unfolding clean using a by (simp add: last_map)
  from forecast_linear_usable[OF ne, of days] obtain slope intercept where
    fl: "forecast_linear data days =
           Inr (zip (date_range (fst (last (dropna_close data)) + one_day) days)
                  (map (\<lambda>x. slope * x + intercept)
                     (map real [length (dropna_close data)..<length (dropna_close data) + days])))"
    by blast
  show "\<exists>fc. forecast_linear data days = Inr fc
              \<and> length fc = days
              \<and> (\<forall>k < days. fst (fc ! k) = Date (last data) + (int k + 1) * one_day)"
    unfolding fl last by (simp add: date_range_def algebra_simps del: upt_Suc)
next
  have "dropna_close [\<lparr>Date = d, Close = Some c\<rparr>] = [(d, c)]"
    by (simp add: dropna_close_def List.map_filter_def)
  thus "forecast_linear [\<lparr>Date = d, Close = Some c\<rparr>] days
          = Inr (map (\<lambda>k. (d + (int k + 1) * one_day, c)) [0..<days])"
    by (rule forecast_linear_single)
qed

theorem forecast_linear_contract_witness:
  "forecast_linear (three_bars (Some 1) (Some 2) (Some 3)) 2
     = Inr [(3 * one_day, 4), (4 * one_day, 5)]
   \<and> Date (last (three_bars (Some 1) (Some 2) (Some 3))) = 2 * one_day
   \<and> forecast_linear [\<lparr>Date = 0, Close = Some 7\<rparr>] 2 = Inr [(one_day, 7), (2 * one_day, 7)]"
proof -
  let ?data = "three_bars (Some 1) (Some 2) (Some 3)"
  have run: "forecast_linear ?data 2 = Inr [(3 * one_day, 4), (4 * one_day, 5)]"
    by code_simp
  have pre: "?data \<noteq> [] \<and> (\<forall>r \<in> set ?data. Close r \<noteq> None) \<and> 1 \<le> (2::nat)"
    by (simp add: three_bars_def)
  from forecast_linear_contract[of 2 ?data, THEN conjunct2, THEN conjunct1, THEN mp, OF pre]
  obtain fc where fc: "forecast_linear ?data 2 = Inr fc" and len: "length fc = 2"
    and dates: "\<forall>k < 2. fst (fc ! k) = Date (last ?data) + (int k + 1) * one_day"
    by blast
  have fceq: "fc = [(3 * one_day, 4), (4 * one_day, 5)]" using fc run by simp
  have "fst (fc ! 0) = Date (last ?data) + (int 0 + 1) * one_day" using dates by simp
  hence "3 * one_day = Date (last ?data) + one_day" unfolding fceq by simp
  hence d: "Date (last ?data) = 2 * one_day" by simp
  have single: "forecast_linear [\<lparr>Date = 0, Close = Some 7\<rparr>] 2 = Inr [(one_day, 7), (2 * one_day, 7)]"
    using forecast_linear_contract[of 2 ?data 0 7, THEN conjunct2, THEN conjunct2]
    by (simp add: numeral_2_eq_2)
  from run d single show ?thesis by (simp only: simp_thms)
qed

text \<open>
  A frame with rows but no close at all is not such a series. There the emptiness guard,
  which runs before \<^verbatim>\<open>dropna\<close>, passes, and \<^verbatim>\<open>np.polyfit\<close> raises on the empty vector.
\<close>

lemma forecast_linear_no_usable_close:
  "forecast_linear [\<lparr>Date = 0, Close = None\<rparr>] 1 = Inl polyfit_empty_error"
  by (simp add: forecast_linear_def dropna_close_def List.map_filter_def polyfit1_def)

section \<open>Properties of the catalog scan\<close>

lemma find_append:
  "List.find P (xs @ ys) = (case List.find P xs of Some x \<Rightarrow> Some x | None \<Rightarrow> List.find P ys)"
  by (induction xs) auto

lemma ne_if_mem: "x \<in> set xs \<Longrightarrow> xs \<noteq> []"
  by (cases xs) simp_all

lemma find_scaler_path_find:
  "find_scaler_path exists ticker
     = List.find exists (candidates ticker @ more_candidates (py_lower ticker))"
  by (simp add: find_scaler_path_def find_append)

lemma find_scaler_path_None:
  "find_scaler_path exists ticker = None
     \<longleftrightarrow> (\<forall>c \<in> set (candidates ticker @ more_candidates (py_lower ticker)). \<not> exists c)"
  unfolding find_scaler_path_find by (auto simp: find_None_iff)

lemma scan_step_apply:
  "scan_step exists models model_path t =
     (case find_scaler_path exists t of
        None \<Rightarrow> models t
      | Some sp \<Rightarrow>
          if normalise_ticker_from_stem (path_stem model_path) = Some t
          then Some \<lparr>entry_model = model_path, entry_scaler = sp\<rparr>
          else models t)"
  by (auto simp: scan_step_def split: option.splits)

text \<open>
  The loop over the model files, read at one ticker: the entry comes from the last file
  in scan order that normalises to the ticker, if the ticker has a scaler at all.
\<close>

lemma foldl_scan_step:
  "foldl (scan_step exists) models files t =
     (case find_scaler_path exists t of
        None \<Rightarrow> models t
      | Some sp \<Rightarrow>
          if filter (\<lambda>f. normalise_ticker_from_stem (path_stem f) = Some t) files = []
          then models t
          else Some \<lparr>entry_model =
                       last (filter (\<lambda>f. normalise_ticker_from_stem (path_stem f) = Some t) files),
                     entry_scaler = sp\<rparr>)"
proof (induction files rule: rev_induct)
  case Nil
  show ?case by (simp split: option.splits)
next
  case (snoc f files)
  have "foldl (scan_step exists) models (files @ [f]) t
          = scan_step exists (foldl (scan_step exists) models files) f t"
    by simp
  also have "\<dots> = (case find_scaler_path exists t of
        None \<Rightarrow> foldl (scan_step exists) models files t
      | Some sp \<Rightarrow>
          if normalise_ticker_from_stem (path_stem f) = Some t
          then Some \<lparr>entry_model = f, entry_scaler = sp\<rparr>
          else foldl (scan_step exists) models files t)"
    by (rule scan_step_apply)
  finally have step: "foldl (scan_step exists) models (files @ [f]) t
      = (case find_scaler_path exists t of
        None \<Rightarrow> foldl (scan_step exists) models files t
      | Some sp \<Rightarrow>
          if normalise_ticker_from_stem (path_stem f) = Some t
          then Some \<lparr>entry_model = f, entry_scaler = sp\<rparr>
          else foldl (scan_step exists) models files t)" .
  show ?case
  proof (cases "find_scaler_path exists t")
    case None
    thus ?thesis using step snoc.IH by simp
  next
    case (Some sp)
    show ?thesis
    proof (cases "normalise_ticker_from_stem (path_stem f) = Some t")
      case True
      thus ?thesis using step Some by simp
    next
      case False
      thus ?thesis using step Some snoc.IH by simp
    qed
  qed
qed

lemma list_available_models_apply:
  "list_available_models (Some names) exists t =
     (case find_scaler_path exists t of
        None \<Rightarrow> None
      | Some sp \<Rightarrow>
          if filter (\<lambda>f. normalise_ticker_from_stem (path_stem f) = Some t)
               (glob_ext ''.keras'' names @ glob_ext ''.h5'' names) = []
          then None
          else Some \<lparr>entry_model =
                       last (filter (\<lambda>f. normalise_ticker_from_stem (path_stem f) = Some t)
                               (glob_ext ''.keras'' names @ glob_ext ''.h5'' names)),
                     entry_scaler = sp\<rparr>)"
proof -
  have "list_available_models (Some names) exists t
          = foldl (scan_step exists) Map.empty (glob_ext ''.keras'' names @ glob_ext ''.h5'' names) t"
    by (simp add: list_available_models_def)
  also note foldl_scan_step
  finally show ?thesis by (simp split: option.splits)
qed

text \<open>
  Claim C8. Whatever the names in the storage root: a ticker none of whose scaler
  candidates exists has no entry; a ticker with a model file and an existing scaler
  candidate has an entry, made of the last model file, in scan order, that normalises to
  the ticker and of the first candidate, in the fixed order, that exists; and the
  catalog, a mapping, holds entries for exactly these tickers.
\<close>

theorem catalog_scan_entries:
  "((\<forall>c \<in> set (candidates t @ more_candidates (py_lower t)). \<not> exists c) \<longrightarrow>
      list_available_models (Some names) exists t = None)
   \<and> (model_path \<in> set (glob_ext ''.keras'' names @ glob_ext ''.h5'' names)
        \<and> normalise_ticker_from_stem (path_stem model_path) = Some t
        \<and> c \<in> set (candidates t @ more_candidates (py_lower t)) \<and> exists c \<longrightarrow>
      (\<exists>m s. list_available_models (Some names) exists t
                = Some \<lparr>entry_model = m, entry_scaler = s\<rparr>
             \<and> m = last (filter (\<lambda>f. normalise_ticker_from_stem (path_stem f) = Some t)
                          (glob_ext ''.keras'' names @ glob_ext ''.h5'' names))
             \<and> m \<in> set (glob_ext ''.keras'' names @ glob_ext ''.h5'' names)
             \<and> List.find exists (candidates t @ more_candidates (py_lower t)) = Some s))
   \<and> dom (list_available_models (Some names) exists)
       = {t. (\<exists>f \<in> set (glob_ext ''.keras'' names @ glob_ext ''.h5'' names).
                normalise_ticker_from_stem (path_stem f) = Some t)
             \<and> (\<exists>c \<in> set (candidates t @ more_candidates (py_lower t)). exists c)}"
proof (intro conjI impI)
  assume "\<forall>c \<in> set (candidates t @ more_candidates (py_lower t)). \<not> exists c"
  hence "find_scaler_path exists t = None" by (simp only: find_scaler_path_None)
  thus "list_available_models (Some names) exists t = None"
    by (simp add: list_available_models_apply)
next
  let ?files = "glob_ext ''.keras'' names @ glob_ext ''.h5'' names"
  let ?hits = "filter (\<lambda>f. normalise_ticker_from_stem (path_stem f) = Some t) ?files"
  assume a: "model_path \<in> set ?files
        \<and> normalise_ticker_from_stem (path_stem model_path) = Some t
        \<and> c \<in> set (candidates t @ more_candidates (py_lower t)) \<and> exists c"
  hence "find_scaler_path exists t \<noteq> None" by (auto simp only: find_scaler_path_None)
  then obtain s where s: "find_scaler_path exists t = Some s" by blast
  have "model_path \<in> set ?hits" using a by simp
  hence ne: "?hits \<noteq> []" by (rule ne_if_mem)
  have "last ?hits \<in> set ?hits" using ne by (rule last_in_set)
  hence mem: "last ?hits \<in> set ?files" by (simp del: filter_append)
  have "list_available_models (Some names) exists t
          = Some \<lparr>entry_model = last ?hits, entry_scaler = s\<rparr>"
    using s ne by (simp only: list_available_models_apply option.case if_False)
  thus "\<exists>m s. list_available_models (Some names) exists t
                = Some \<lparr>entry_model = m, entry_scaler = s\<rparr>
             \<and> m = last ?hits \<and> m \<in> set ?files
             \<and> List.find exists (candidates t @ more_candidates (py_lower t)) = Some s"
    using mem s by (simp only: find_scaler_path_find) blast
next
  let ?files = "glob_ext ''.keras'' names @ glob_ext ''.h5'' names"
  show "dom (list_available_models (Some names) exists)
       = {t. (\<exists>f \<in> set ?files. normalise_ticker_from_stem (path_stem f) = Some t)
             \<and> (\<exists>c \<in> set (candidates t @ more_candidates (py_lower t)). exists c)}"
  proof (rule set_eqI)
    fix t
    let ?hits = "filter (\<lambda>f. normalise_ticker_from_stem (path_stem f) = Some t) ?files"
    have hits: "?hits \<noteq> [] \<longleftrightarrow> (\<exists>f \<in> set ?files. normalise_ticker_from_stem (path_stem f) = Some t)"
      by (simp only: filter_empty_conv) blast
    have sc: "find_scaler_path exists t \<noteq> None
                \<longleftrightarrow> (\<exists>c \<in> set (candidates t @ more_candidates (py_lower t)). exists c)"
      by (simp only: find_scaler_path_None) blast
    have "t \<in> dom (list_available_models (Some names) exists)
            \<longleftrightarrow> find_scaler_path exists t \<noteq> None \<and> ?hits \<noteq> []"
      by (simp only: domIff list_available_models_apply) (simp split: option.splits)
    thus "t \<in> dom (list_available_models (Some names) exists)
            \<longleftrightarrow> t \<in> {t. (\<exists>f \<in> set ?files. normalise_ticker_from_stem (path_stem f) = Some t)
                       \<and> (\<exists>c \<in> set (candidates t @ more_candidates (py_lower t)). exists c)}"
      using hits sc unfolding mem_Collect_eq by blast
  qed
qed


theorem catalog_scan_entries_witness:
  "list_available_models (Some [''lstm_AAPL.keras'', ''scaler_AAPL.save'', ''msft.h5''])
     (\<lambda>p. p \<in> set [''lstm_AAPL.keras'', ''scaler_AAPL.save'', ''msft.h5'']) ''MSFT'' = None
   \<and> list_available_models (Some [''lstm_AAPL.keras'', ''scaler_AAPL.save'', ''msft.h5''])
       (\<lambda>p. p \<in> set [''lstm_AAPL.keras'', ''scaler_AAPL.save'', ''msft.h5'']) ''AAPL''
       = Some \<lparr>entry_model = ''lstm_AAPL.keras'', entry_scaler = ''scaler_AAPL.save''\<rparr>"
proof -
  let ?names = "[''lstm_AAPL.keras'', ''scaler_AAPL.save'', ''msft.h5'']"
  let ?ex = "\<lambda>p. p \<in> set ?names"
  have none: "\<forall>c \<in> set (candidates ''MSFT'' @ more_candidates (py_lower ''MSFT'')). \<not> ?ex c"
    by (simp add: candidates_def more_candidates_def py_lower_def lower_char_def)
  have msft: "list_available_models (Some ?names) ?ex ''MSFT'' = None"
    using catalog_scan_entries[of "''MSFT''" ?ex ?names] none by blast
  have files: "glob_ext ''.keras'' ?names @ glob_ext ''.h5'' ?names = [''lstm_AAPL.keras'', ''msft.h5'']"
    by (simp add: glob_ext_def endswith_def)
  have n1: "normalise_ticker_from_stem (path_stem ''lstm_AAPL.keras'') = Some ''AAPL''"
    by (simp add: path_stem_def normalise_ticker_from_stem_def py_upper_def upper_char_def
        strip_prefix_def startswith_def)
  have n2: "normalise_ticker_from_stem (path_stem ''msft.h5'') = Some ''MSFT''"
    by (simp add: path_stem_def normalise_ticker_from_stem_def py_upper_def upper_char_def
        strip_prefix_def startswith_def)
  have cand: "''scaler_AAPL.save'' \<in> set (candidates ''AAPL'' @ more_candidates (py_lower ''AAPL''))"
    by (simp add: candidates_def)
  have first: "List.find ?ex (candidates ''AAPL'' @ more_candidates (py_lower ''AAPL''))
                 = Some ''scaler_AAPL.save''"
    by (simp add: candidates_def)
  have hits: "filter (\<lambda>f. normalise_ticker_from_stem (path_stem f) = Some ''AAPL'')
                (glob_ext ''.keras'' ?names @ glob_ext ''.h5'' ?names) = [''lstm_AAPL.keras'']"
    unfolding files using n1 n2 by simp
  have prem: "''lstm_AAPL.keras'' \<in> set (glob_ext ''.keras'' ?names @ glob_ext ''.h5'' ?names)
        \<and> normalise_ticker_from_stem (path_stem ''lstm_AAPL.keras'') = Some ''AAPL''
        \<and> ''scaler_AAPL.save'' \<in> set (candidates ''AAPL'' @ more_candidates (py_lower ''AAPL''))
        \<and> ?ex ''scaler_AAPL.save''"
    using n1 cand unfolding files by simp
  from catalog_scan_entries
         [of "''AAPL''" ?ex ?names "''lstm_AAPL.keras''" "''scaler_AAPL.save''",
          THEN conjunct2, THEN conjunct1, THEN mp, OF prem]
  obtain m s where
    e: "list_available_models (Some ?names) ?ex ''AAPL'' = Some \<lparr>entry_model = m, entry_scaler = s\<rparr>"
    and m: "m = last (filter (\<lambda>f. normalise_ticker_from_stem (path_stem f) = Some ''AAPL'')
                          (glob_ext ''.keras'' ?names @ glob_ext ''.h5'' ?names))"
    and s: "List.find ?ex (candidates ''AAPL'' @ more_candidates (py_lower ''AAPL'')) = Some s"
    by blast
  have "m = ''lstm_AAPL.keras''" using m unfolding hits by simp
  moreover have "s = ''scaler_AAPL.save''" using s unfolding first by simp
  ultimately have aapl: "list_available_models (Some ?names) ?ex ''AAPL''
       = Some \<lparr>entry_model = ''lstm_AAPL.keras'', entry_scaler = ''scaler_AAPL.save''\<rparr>"
    using e by simp
  from msft aapl show ?thesis by (simp only: simp_thms)
qed

section \<open>Properties of the orchestrator\<close>

text \<open>
  Claim C9. With the prefer-sequence-model flag false, the only forecaster called is
  \<^verbatim>\<open>forecast_linear\<close>: the log holds the linear tier alone, the storage state is untouched,
  the outcome does not depend on the backend, and a returned response has source
  "linear" and no note.
\<close>

theorem linear_only_when_not_preferred:
  "get_forecast env data ticker days False window w =
     ((case forecast_linear data days of
         Inl exc \<Rightarrow> Inl exc
       | Inr f \<Rightarrow>
           Inr \<lparr>resp_ticker = py_upper (py_strip ticker), resp_source = ''linear'',
                 resp_forecast = f, resp_history = tail_rows (max days 120) data,
                 resp_note = None\<rparr>),
      w, [FALLBACK_LINEAR])
   \<and> ATTEMPT_TRAIN \<notin> set (snd (snd (get_forecast env data ticker days False window w)))
   \<and> ATTEMPT_CACHED \<notin> set (snd (snd (get_forecast env data ticker days False window w)))"
proof -
  have "get_forecast env data ticker days False window w =
     ((case forecast_linear data days of
         Inl exc \<Rightarrow> Inl exc
       | Inr f \<Rightarrow>
           Inr \<lparr>resp_ticker = py_upper (py_strip ticker), resp_source = ''linear'',
                 resp_forecast = f, resp_history = tail_rows (max days 120) data,
                 resp_note = None\<rparr>),
      w, [FALLBACK_LINEAR])"
    by (simp add: get_forecast_def fallback_block_def Let_def split: sum.splits)
  thus ?thesis by simp
qed

theorem linear_only_when_not_preferred_witness:
  "get_forecast (example_backend 2 True) (three_bars (Some 1) (Some 2) (Some 3)) ''aapl'' 2 False 2
     [''lstm_AAPL.keras'', ''scaler_AAPL.save'']
     = (Inr \<lparr>resp_ticker = ''AAPL'', resp_source = ''linear'',
              resp_forecast = [(3 * one_day, 4), (4 * one_day, 5)],
              resp_history = three_bars (Some 1) (Some 2) (Some 3), resp_note = None\<rparr>,
        [''lstm_AAPL.keras'', ''scaler_AAPL.save''], [FALLBACK_LINEAR])"
proof -
  have fl: "forecast_linear (three_bars (Some 1) (Some 2) (Some 3)) 2
              = Inr [(3 * one_day, 4), (4 * one_day, 5)]"
    by code_simp
  have up: "py_upper (py_strip ''aapl'') = ''AAPL''"
    by code_simp
  have tl: "tail_rows (max 2 120) (three_bars (Some 1) (Some 2) (Some 3))
              = three_bars (Some 1) (Some 2) (Some 3)"
    by (simp add: tail_rows_def three_bars_def)
  show ?thesis
    using linear_only_when_not_preferred
            [of "example_backend 2 True" "three_bars (Some 1) (Some 2) (Some 3)" "''aapl''" 2 2
                "[''lstm_AAPL.keras'', ''scaler_AAPL.save'']", THEN conjunct1]
    by (simp only: fl up tl sum.case)
qed

text \<open>The tiers each block of the orchestrator adds to the log.\<close>

lemma cached_block_attempts:
  "attempts (cached_block env data tc days window st) = attempts st
   \<or> attempts (cached_block env data tc days window st) = attempts st @ [ATTEMPT_CACHED]"
  by (auto simp: cached_block_def Let_def split: sum.splits prod.splits)

text \<open>
  After the block \<^verbatim>\<open>if use_lstm:\<close> either training alone was attempted, and then a missing
  forecast means that the ticker has no catalog entry to load; or the cached model was
  attempted once after it.
\<close>

lemma lstm_block_attempts:
  assumes "st' = lstm_block env data tc days window st"
  shows "(attempts st' = attempts st @ [ATTEMPT_TRAIN]
          \<and> (forecast_df st' = None \<longrightarrow>
                model_catalog st' tc = None
                \<or> (\<exists>exc. load_lstm_artifacts tc (model_catalog st') = Inl exc)))
       \<or> (attempts st' = attempts st @ [ATTEMPT_TRAIN, ATTEMPT_CACHED]
          \<and> model_catalog st' tc \<noteq> None
          \<and> (\<exists>paths. load_lstm_artifacts tc (model_catalog st') = Inr paths))"
  unfolding assms
  by (auto simp: lstm_block_def Let_def split: sum.splits prod.splits)

lemma cached_block_load_fails:
  "load_lstm_artifacts tc (model_catalog st) = Inl exc \<Longrightarrow>
     attempts (cached_block env data tc days window st) = attempts st
     \<and> forecast_df (cached_block env data tc days window st) = forecast_df st"
  by (simp add: cached_block_def Let_def)

lemma fallback_block_attempts:
  assumes "forecast_df st = None"
  shows "\<exists>st2. (fallback_block env data tc days True window st = Inr st2
                \<or> (\<exists>exc. fallback_block env data tc days True window st = Inl (exc, st2)))
              \<and> (if model_catalog st tc = None
                      \<or> (\<exists>exc. load_lstm_artifacts tc (model_catalog st) = Inl exc)
                  then attempts st2 = attempts st @ [FALLBACK_LINEAR]
                  else attempts st2 = attempts st @ [ATTEMPT_CACHED]
                       \<or> attempts st2 = attempts st @ [ATTEMPT_CACHED, FALLBACK_LINEAR])"
proof (cases "model_catalog st tc = None")
  case True
  thus ?thesis using assms
    by (auto simp: fallback_block_def Let_def split: sum.splits)
next
  case False
  show ?thesis
  proof (cases "load_lstm_artifacts tc (model_catalog st)")
    case (Inl exc)
    from cached_block_load_fails[OF this, of env data days window]
    show ?thesis using assms False Inl
      by (auto simp: fallback_block_def Let_def split: sum.splits)
  next
    case (Inr paths)
    obtain mp sp where paths: "paths = (mp, sp)" by (cases paths)
    show ?thesis using assms False Inr paths
      by (auto simp: fallback_block_def cached_block_def Let_def split: sum.splits)
  qed
qed

lemma fallback_block_done:
  "forecast_df st \<noteq> None \<Longrightarrow> fallback_block env data tc days use_lstm window st = Inr st"
  by (cases "forecast_df st") (simp_all add: fallback_block_def)

lemma get_forecast_attempts:
  "fallback_block env data (py_upper (py_strip ticker)) days use_lstm window st1 = Inr st2 \<Longrightarrow>
   st1 = (if use_lstm
          then lstm_block env data (py_upper (py_strip ticker)) days window
                 \<lparr>forecast_df = None, source = ''linear'', note_str = None, train_error = None,
                  model_catalog = list_available_models (listdir env w) (path_exists env w),
                  world = w, attempts = []\<rparr>
          else \<lparr>forecast_df = None, source = ''linear'', note_str = None, train_error = None,
                model_catalog = list_available_models (listdir env w) (path_exists env w),
                world = w, attempts = []\<rparr>) \<Longrightarrow>
   snd (snd (get_forecast env data ticker days use_lstm window w)) = attempts st2"
  "fallback_block env data (py_upper (py_strip ticker)) days use_lstm window st1 = Inl (exc, st2) \<Longrightarrow>
   st1 = (if use_lstm
          then lstm_block env data (py_upper (py_strip ticker)) days window
                 \<lparr>forecast_df = None, source = ''linear'', note_str = None, train_error = None,
                  model_catalog = list_available_models (listdir env w) (path_exists env w),
                  world = w, attempts = []\<rparr>
          else \<lparr>forecast_df = None, source = ''linear'', note_str = None, train_error = None,
                model_catalog = list_available_models (listdir env w) (path_exists env w),
                world = w, attempts = []\<rparr>) \<Longrightarrow>
   snd (snd (get_forecast env data ticker days use_lstm window w)) = attempts st2"
  by (simp_all add: get_forecast_def Let_def split: option.splits)

lemma get_forecast_traces:
  "snd (snd (get_forecast env data ticker days use_lstm window w))
     \<in> set [[FALLBACK_LINEAR],
            [ATTEMPT_TRAIN],
            [ATTEMPT_TRAIN, FALLBACK_LINEAR],
            [ATTEMPT_TRAIN, ATTEMPT_CACHED],
            [ATTEMPT_TRAIN, ATTEMPT_CACHED, ATTEMPT_CACHED],
            [ATTEMPT_TRAIN, ATTEMPT_CACHED, ATTEMPT_CACHED, FALLBACK_LINEAR]]"
proof (cases use_lstm)
  case False
  thus ?thesis
    by (simp add: get_forecast_def fallback_block_def Let_def split: sum.splits)
next
  case True
  let ?tc = "py_upper (py_strip ticker)"
  let ?st0 = "\<lparr>forecast_df = None, source = ''linear'', note_str = None, train_error = None,
                model_catalog = list_available_models (listdir env w) (path_exists env w),
                world = w, attempts = []\<rparr>"
  let ?st1 = "lstm_block env data ?tc days window ?st0"
  have st1: "?st1 = (if use_lstm then ?st1 else ?st0)" using True by simp
  note blk = lstm_block_attempts[OF refl, of env data ?tc days window ?st0]
  show ?thesis
  proof (cases "forecast_df ?st1 = None")
    case False
    hence "fallback_block env data ?tc days use_lstm window ?st1 = Inr ?st1"
      by (rule fallback_block_done)
    from get_forecast_attempts(1)[OF this st1]
    show ?thesis using blk by auto
  next
    case None: True
    from fallback_block_attempts[OF None, of env data ?tc days window] obtain st2 where
      fb: "fallback_block env data ?tc days True window ?st1 = Inr st2
           \<or> (\<exists>exc. fallback_block env data ?tc days True window ?st1 = Inl (exc, st2))"
      and at: "if model_catalog ?st1 ?tc = None
                   \<or> (\<exists>exc. load_lstm_artifacts ?tc (model_catalog ?st1) = Inl exc)
               then attempts st2 = attempts ?st1 @ [FALLBACK_LINEAR]
               else attempts st2 = attempts ?st1 @ [ATTEMPT_CACHED]
                    \<or> attempts st2 = attempts ?st1 @ [ATTEMPT_CACHED, FALLBACK_LINEAR]"
      by blast
    have log: "snd (snd (get_forecast env data ticker days use_lstm window w)) = attempts st2"
      using fb get_forecast_attempts[OF _ st1] True by auto
    from blk show ?thesis
    proof
      assume a: "attempts ?st1 = attempts ?st0 @ [ATTEMPT_TRAIN]
          \<and> (forecast_df ?st1 = None \<longrightarrow>
                model_catalog ?st1 ?tc = None
                \<or> (\<exists>exc. load_lstm_artifacts ?tc (model_catalog ?st1) = Inl exc))"
      hence "model_catalog ?st1 ?tc = None
                \<or> (\<exists>exc. load_lstm_artifacts ?tc (model_catalog ?st1) = Inl exc)"
        using None by blast
      hence "attempts st2 = attempts ?st1 @ [FALLBACK_LINEAR]" using at by simp
      thus ?thesis using a log by simp
    next
      assume a: "attempts ?st1 = attempts ?st0 @ [ATTEMPT_TRAIN, ATTEMPT_CACHED]
          \<and> model_catalog ?st1 ?tc \<noteq> None
          \<and> (\<exists>paths. load_lstm_artifacts ?tc (model_catalog ?st1) = Inr paths)"
      hence "\<not> (model_catalog ?st1 ?tc = None
                \<or> (\<exists>exc. load_lstm_artifacts ?tc (model_catalog ?st1) = Inl exc))"
        by auto
      hence "attempts st2 = attempts ?st1 @ [ATTEMPT_CACHED]
            \<or> attempts st2 = attempts ?st1 @ [ATTEMPT_CACHED, FALLBACK_LINEAR]"
        using at by (simp only: if_False)
      thus ?thesis using a log by auto
    qed
  qed
qed

text \<open>
  Claim C3, as the code has it. In every orchestration call the log of tiers is one of
  six sequences: training and the linear fallback are attempted at most once each, and
  cached inference at most twice, the second time right after its first attempt, which
  followed a failed training, has failed too.
\<close>

theorem tier_attempts_bounded:
  "snd (snd (get_forecast env data ticker days use_lstm window w))
     \<in> set [[FALLBACK_LINEAR],
            [ATTEMPT_TRAIN],
            [ATTEMPT_TRAIN, FALLBACK_LINEAR],
            [ATTEMPT_TRAIN, ATTEMPT_CACHED],
            [ATTEMPT_TRAIN, ATTEMPT_CACHED, ATTEMPT_CACHED],
            [ATTEMPT_TRAIN, ATTEMPT_CACHED, ATTEMPT_CACHED, FALLBACK_LINEAR]]
   \<and> count_list (snd (snd (get_forecast env data ticker days use_lstm window w))) ATTEMPT_TRAIN \<le> 1
   \<and> count_list (snd (snd (get_forecast env data ticker days use_lstm window w))) FALLBACK_LINEAR \<le> 1
   \<and> count_list (snd (snd (get_forecast env data ticker days use_lstm window w))) ATTEMPT_CACHED \<le> 2"
  using get_forecast_traces[of env data ticker days use_lstm window w] by auto

text \<open>
  The claim as stated fails when the frame is shorter than the window and a model is
  cached for the ticker: training fails, the cached model fails, and the cached model is
  attempted a second time before the linear fallback.
\<close>

theorem cached_tier_retried_counterexample:
  "snd (snd (get_forecast (example_backend 2 True) (three_bars (Some 1) (Some 2) (Some 3))
               ''aapl'' 2 True 5 [''lstm_AAPL.keras'', ''scaler_AAPL.save'']))
     = [ATTEMPT_TRAIN, ATTEMPT_CACHED, ATTEMPT_CACHED, FALLBACK_LINEAR]"
  by code_simp

end
